theory Spec2Isabelle
  imports Main
begin

section \<open>Values exchanged with the HTTP layer\<close>

text \<open>
  The controllers and middlewares of the API (auth.controller.js, user.controller.js,
  role.controller.js, verifyToken.js, roleAuthorization.js) are embedded as functions
  from the request data and the database to a response and the new database.
  Three libraries are used by that code and are not part of it: jsonwebtoken, bcrypt
  and Sequelize. They are represented symbolically, in the way protocol models treat
  cryptography: a token records which algorithm and key signed which claims, a digest
  records the password it was computed from, and a table is the list of its rows.
\<close>

subsection \<open>Signing keys, algorithms, claims and tokens\<close>

datatype algorithm = HS256 | HS384 | HS512 | RS256 | RS384 | RS512

text \<open>
  Key material: a shared secret string, or one half of an RSA key pair,
  where the number names the pair.
\<close>

datatype key = Secret string | RsaPrivate nat | RsaPublic nat

text \<open>
  The decoded payload of a token. The four application claims are the ones the
  controllers ever put into a payload (\<^verbatim>\<open>id\<close>, \<^verbatim>\<open>username\<close>, \<^verbatim>\<open>email\<close>,
  \<^verbatim>\<open>verified\<close>); a claim that is absent from the payload reads as \<^verbatim>\<open>undefined\<close>
  in JavaScript and is \<open>None\<close> here. \<open>iat\<close> and \<open>exp\<close> are the registered claims
  that \<^verbatim>\<open>jwt.sign\<close> adds, in seconds.
\<close>

record claims =
  claim_id :: "int option"
  claim_username :: "string option"
  claim_email :: "string option"
  claim_verified :: "bool option"
  iat :: nat
  exp :: "nat option"

text \<open>
  A bearer credential as it arrives in a header, a path or a body: either a string
  that is not a well-formed JWT, or a JWT with its header algorithm, the key that
  produced its signature, and its payload.
\<close>

datatype token = Opaque string | Jwt algorithm key claims

subsection \<open>JSON bodies and responses\<close>

datatype json =
    JNull
  | JBool bool
  | JNum int
  | JStr string
  | JToken token
  | JArr "json list"
  | JObj "(string \<times> json) list"

record response =
  statusCode :: nat
  body :: json

definition respond :: "nat \<Rightarrow> json \<Rightarrow> response" where
  "respond code b = \<lparr>statusCode = code, body = b\<rparr>"

definition message :: "string \<Rightarrow> json" where
  "message m = JObj [(''message'', JStr m)]"

definition message_error :: "string \<Rightarrow> string \<Rightarrow> json" where
  "message_error m e = JObj [(''message'', JStr m), (''error'', JStr e)]"

text \<open>
  The outcome of a middleware: it either sends a response itself, or calls
  \<^verbatim>\<open>next()\<close>, handing on what it attached to the request.
\<close>

datatype 'a middleware = Respond response | Next 'a

section \<open>jsonwebtoken\<close>

definition HS_ALGS :: "algorithm list" where
  "HS_ALGS = [HS256, HS384, HS512]"

definition RSA_KEY_ALGS :: "algorithm list" where
  "RSA_KEY_ALGS = [RS256, RS384, RS512]"

text \<open>
  \<^verbatim>\<open>jwt.sign(payload, key, {algorithm, expiresIn})\<close>: the issue time is the clock,
  the expiry is the clock plus the lifetime. Both HMAC and RSASSA-PKCS1-v1_5 are
  deterministic, so the token is a function of its inputs and the clock second.
\<close>

definition jwt_sign :: "nat \<Rightarrow> claims \<Rightarrow> key \<Rightarrow> algorithm \<Rightarrow> nat \<Rightarrow> token" where
  "jwt_sign now payload k alg expiresIn =
     Jwt alg k (payload\<lparr>iat := now, exp := Some (now + expiresIn)\<rparr>)"

text \<open>
  A signature made with \<open>signer\<close> checks against \<open>verifier\<close>: for the HMAC family
  when both are the same key material, for the RSA family when they are the two
  halves of one pair.
\<close>

definition signature_ok :: "algorithm \<Rightarrow> key \<Rightarrow> key \<Rightarrow> bool" where
  "signature_ok alg signer verifier =
     (if alg \<in> set HS_ALGS then signer = verifier
      else (case (signer, verifier) of
              (RsaPrivate n, RsaPublic m) \<Rightarrow> n = m
            | _ \<Rightarrow> False))"

text \<open>
  \<^verbatim>\<open>jwt.verify(token, key, {algorithms})\<close>. The token may be \<^verbatim>\<open>undefined\<close>. When the
  caller gives no list of algorithms, the library admits the HMAC family for a secret
  and the RSA family for an RSA key. The result is the error message or the payload.
\<close>

definition jwt_verify ::
  "nat \<Rightarrow> token option \<Rightarrow> key \<Rightarrow> algorithm list option \<Rightarrow> string + claims" where
  "jwt_verify now tok k algorithms =
     (case tok of
        None \<Rightarrow> Inl ''jwt must be provided''
      | Some (Opaque s) \<Rightarrow> Inl ''jwt malformed''
      | Some (Jwt alg signer payload) \<Rightarrow>
          (let allowed = (case algorithms of
                            Some algs \<Rightarrow> algs
                          | None \<Rightarrow> (case k of Secret s \<Rightarrow> HS_ALGS | _ \<Rightarrow> RSA_KEY_ALGS))
           in if alg \<notin> set allowed then Inl ''invalid algorithm''
              else if \<not> signature_ok alg signer k then Inl ''invalid signature''
              else if (case exp payload of Some e \<Rightarrow> e \<le> now | None \<Rightarrow> False)
                   then Inl ''jwt expired''
              else Inr payload))"

section \<open>bcrypt\<close>

text \<open>A digest remembers the salt and the password it was computed from.\<close>

datatype digest = Bcrypt string string

definition bcrypt_compare :: "string \<Rightarrow> digest \<Rightarrow> bool" where
  "bcrypt_compare plain d = (case d of Bcrypt salt p \<Rightarrow> plain = p)"

definition digest_text :: "digest \<Rightarrow> string" where
  "digest_text d = (case d of Bcrypt salt p \<Rightarrow> ''$2b$10$'' @ salt @ p)"

section \<open>The tables\<close>

text \<open>
  The rows of the Sequelize models (user.model.js, session.model.js, role.model.js,
  user_roles.model.js). Field names are prefixed where two models share one.
\<close>

record user =
  user_id :: int
  name :: "string option"
  username :: string
  email :: string
  password :: digest
  phoneNumber :: "string option"
  emailVerified :: bool
  acceptedTerms :: bool
  createdAt :: nat
  updatedAt :: nat

record session =
  session_token :: token
  flag :: bool
  expiresAt :: "nat option"
  userId :: "int option"

record role =
  role_id :: int
  roleName :: string
  description :: "string option"

record user_role =
  ur_userId :: int
  ur_roleId :: int

record db =
  users :: "user list"
  sessions :: "session list"
  roles :: "role list"
  user_roles :: "user_role list"

record jwt_config =
  secret :: string
  publicKey :: key
  privateKey :: key

text \<open>What \<^verbatim>\<open>verifyToken\<close> attaches to the request as \<^verbatim>\<open>req.user\<close>.\<close>

record req_user =
  req_id :: int
  req_username :: string
  verified :: bool
  req_role :: "string list option"

subsection \<open>Queries\<close>

text \<open>\<^verbatim>\<open>db.session.findOne({ where: { token } })\<close>\<close>

definition session_findOne :: "db \<Rightarrow> token \<Rightarrow> session option" where
  "session_findOne d t = find (\<lambda>s. session_token s = t) (sessions d)"

text \<open>
  \<^verbatim>\<open>db.session.create\<close>: the token column is declared unique, so a second row
  with the same token is refused.
\<close>

definition session_create :: "db \<Rightarrow> session \<Rightarrow> string + db" where
  "session_create d s =
     (if list_ex (\<lambda>r. session_token r = session_token s) (sessions d)
      then Inl ''Validation error''
      else Inr (d\<lparr>sessions := sessions d @ [s]\<rparr>))"

text \<open>\<^verbatim>\<open>db.session.update({ flag: true }, { where: { token, userId } })\<close>\<close>

definition session_update_flag :: "db \<Rightarrow> token \<Rightarrow> int \<Rightarrow> db" where
  "session_update_flag d t u =
     d\<lparr>sessions := map (\<lambda>s. if session_token s = t \<and> userId s = Some u
                               then s\<lparr>flag := True\<rparr> else s) (sessions d)\<rparr>"

text \<open>\<^verbatim>\<open>db.user.findOne({ where: { username } })\<close> and \<^verbatim>\<open>db.user.findByPk(id)\<close>\<close>

definition user_findOne_username :: "db \<Rightarrow> string \<Rightarrow> user option" where
  "user_findOne_username d n = find (\<lambda>u. username u = n) (users d)"

definition user_findByPk :: "db \<Rightarrow> int \<Rightarrow> user option" where
  "user_findByPk d i = find (\<lambda>u. user_id u = i) (users d)"

text \<open>
  \<^verbatim>\<open>db.user.findOne({ where: { id, username } })\<close> and the same with \<^verbatim>\<open>email\<close>.
  Sequelize refuses a where-clause with an \<^verbatim>\<open>undefined\<close> value by throwing.
\<close>

definition user_findOne_id_username ::
  "db \<Rightarrow> int option \<Rightarrow> string option \<Rightarrow> string + user option" where
  "user_findOne_id_username d i n =
     (case i of
        None \<Rightarrow> Inl ''WHERE parameter \"id\" has invalid \"undefined\" value''
      | Some i' \<Rightarrow>
          (case n of
             None \<Rightarrow> Inl ''WHERE parameter \"username\" has invalid \"undefined\" value''
           | Some n' \<Rightarrow> Inr (find (\<lambda>u. user_id u = i' \<and> username u = n') (users d))))"

definition user_findOne_id_email ::
  "db \<Rightarrow> int option \<Rightarrow> string option \<Rightarrow> string + user option" where
  "user_findOne_id_email d i e =
     (case i of
        None \<Rightarrow> Inl ''WHERE parameter \"id\" has invalid \"undefined\" value''
      | Some i' \<Rightarrow>
          (case e of
             None \<Rightarrow> Inl ''WHERE parameter \"email\" has invalid \"undefined\" value''
           | Some e' \<Rightarrow> Inr (find (\<lambda>u. user_id u = i' \<and> email u = e') (users d))))"

text \<open>The roles joined to a user through the junction table (\<^verbatim>\<open>include: [db.role]\<close>).\<close>

definition Roles :: "db \<Rightarrow> user \<Rightarrow> role list" where
  "Roles d u =
     filter (\<lambda>r. list_ex (\<lambda>ur. ur_userId ur = user_id u \<and> ur_roleId ur = role_id r)
                          (user_roles d))
            (roles d)"

section \<open>Middlewares\<close>

text \<open>
  The Authorization header is kept as the list of its space-separated pieces, so that
  \<^verbatim>\<open>req.headers['authorization']?.split(' ')[1]\<close> is the second piece when there is one.
\<close>

definition bearer :: "token list option \<Rightarrow> token option" where
  "bearer authorization =
     (case authorization of
        None \<Rightarrow> None
      | Some pieces \<Rightarrow> (if 1 < length pieces then Some (pieces ! 1) else None))"

text \<open>JavaScript truthiness of the two claims that \<^verbatim>\<open>verifyToken\<close> tests.\<close>

definition falsy_id :: "int option \<Rightarrow> bool" where
  "falsy_id i = (i = None \<or> i = Some 0)"

definition falsy_string :: "string option \<Rightarrow> bool" where
  "falsy_string s = (s = None \<or> s = Some [])"

definition verifyToken ::
  "jwt_config \<Rightarrow> nat \<Rightarrow> db \<Rightarrow> token list option \<Rightarrow> req_user middleware" where
  "verifyToken cfg now d authorization =
     (case bearer authorization of
        None \<Rightarrow> Respond (respond 401 (message ''No token provided''))
      | Some tok \<Rightarrow>
          if tok = Opaque [] then Respond (respond 401 (message ''No token provided''))
          else
            (case jwt_verify now (Some tok) (publicKey cfg) (Some [RS256]) of
               Inl err \<Rightarrow> Respond (respond 401 (message ''Invalid token''))
             | Inr decoded \<Rightarrow>
                 if falsy_id (claim_id decoded) \<or> falsy_string (claim_username decoded)
                 then Respond (respond 401
                        (message ''Token is missing required user information''))
                 else
                   (case session_findOne d tok of
                      None \<Rightarrow> Respond (respond 401 (message ''Token is blacklisted''))
                    | Some blacklistedToken \<Rightarrow>
                        if flag blacklistedToken = True
                        then Respond (respond 401 (message ''Token is blacklisted''))
                        else
                          (case user_findOne_id_username d (claim_id decoded)
                                  (claim_username decoded) of
                             Inl err \<Rightarrow> Respond (respond 401
                                 (message_error ''Token verification failed'' err))
                           | Inr None \<Rightarrow> Respond (respond 401 (message ''User not found''))
                           | Inr (Some u) \<Rightarrow>
                               Next \<lparr>req_id = user_id u,
                                     req_username = username u,
                                     verified = emailVerified u,
                                     req_role = Some (map roleName (Roles d u))\<rparr>))))"

text \<open>
  \<^verbatim>\<open>roleAuthorization(allowedRoles)\<close>. An empty array is truthy in JavaScript, so only
  a missing \<^verbatim>\<open>req.user\<close> or a missing \<^verbatim>\<open>req.user.role\<close> takes the first branch.
\<close>

definition roleAuthorization ::
  "string list \<Rightarrow> req_user option \<Rightarrow> req_user middleware" where
  "roleAuthorization allowedRoles ru =
     (case ru of
        None \<Rightarrow> Respond (respond 403 (message ''Access denied''))
      | Some u \<Rightarrow>
          (case req_role u of
             None \<Rightarrow> Respond (respond 403 (message ''Access denied''))
           | Some rs \<Rightarrow>
               (let found = list_ex (\<lambda>r. r \<in> set rs) allowedRoles
                in if \<not> found
                   then Respond (respond 403 (message ''Forbidden: Insufficient permissions''))
                   else Next u)))"

section \<open>Saving a user row\<close>

text \<open>
  \<^verbatim>\<open>user.save()\<close> on a row loaded as \<open>old\<close> and modified to \<open>new\<close>. Sequelize issues no
  UPDATE when nothing changed. The username and email columns are unique, so a changed
  value that another row already holds is refused. A written row gets a new
  \<^verbatim>\<open>updatedAt\<close>.
\<close>

definition user_save :: "nat \<Rightarrow> db \<Rightarrow> user \<Rightarrow> user \<Rightarrow> string + (db \<times> user)" where
  "user_save now d old new =
     (if new = old then Inr (d, new)
      else if (username new \<noteq> username old \<and>
               list_ex (\<lambda>v. user_id v \<noteq> user_id new \<and> username v = username new) (users d))
            \<or> (email new \<noteq> email old \<and>
               list_ex (\<lambda>v. user_id v \<noteq> user_id new \<and> email v = email new) (users d))
      then Inl ''Validation error''
      else (let saved = new\<lparr>updatedAt := now\<rparr>
            in Inr (d\<lparr>users := map (\<lambda>v. if user_id v = user_id new then saved else v)
                                     (users d)\<rparr>, saved)))"

text \<open>\<^verbatim>\<open>bcrypt.hash(password, 10)\<close>; the salt is the randomness of the call.\<close>

definition bcrypt_hash :: "string \<Rightarrow> string option \<Rightarrow> string + digest" where
  "bcrypt_hash salt plain =
     (case plain of
        None \<Rightarrow> Inl ''data and salt arguments required''
      | Some p \<Rightarrow> Inr (Bcrypt salt p))"

section \<open>auth.controller.js\<close>

record login_body =
  body_username :: "string option"
  body_email :: "string option"
  body_password :: "string option"

text \<open>The payload literals of the four \<^verbatim>\<open>jwt.sign\<close> calls start from the empty payload.\<close>

definition no_claims :: claims where
  "no_claims = \<lparr>claim_id = None, claim_username = None, claim_email = None,
                 claim_verified = None, iat = 0, exp = None\<rparr>"

definition login :: "jwt_config \<Rightarrow> nat \<Rightarrow> db \<Rightarrow> login_body \<Rightarrow> response \<times> db" where
  "login cfg now d b =
     (if falsy_string (body_username b) \<or> falsy_string (body_password b)
      then (respond 400 (message ''Username and password are required''), d)
      else
        (case user_findOne_username d (the (body_username b)) of
           None \<Rightarrow> (respond 401 (message ''Invalid username or password''), d)
         | Some u \<Rightarrow>
             (let isMatch = bcrypt_compare (the (body_password b)) (password u)
              in if \<not> isMatch
                 then (respond 401 (message ''Invalid username or password''), d)
                 else
                   (let tok = jwt_sign now
                                (no_claims\<lparr>claim_id := Some (user_id u),
                                           claim_username := Some (username u),
                                           claim_verified := Some (emailVerified u)\<rparr>)
                                (privateKey cfg) RS256 3600
                    in case session_create d
                              \<lparr>session_token = tok, flag = False, expiresAt = None,
                               userId = Some (user_id u)\<rparr> of
                         Inl err \<Rightarrow> (respond 500 (message_error ''Server error'' err), d)
                       | Inr d' \<Rightarrow> (respond 200 (JObj [(''token'', JToken tok)]), d')))))"

text \<open>
  The verification token that \<^verbatim>\<open>signup\<close> and \<^verbatim>\<open>resendVerificationEmail\<close> sign for a
  user (\<^verbatim>\<open>jwt.sign({ id, email }, jwt_config.secret, { expiresIn: '1h' })\<close>), and the
  reset token that \<^verbatim>\<open>forgotPassword\<close> signs (the same with \<^verbatim>\<open>username\<close> in place of
  \<^verbatim>\<open>email\<close>). \<^verbatim>\<open>jwt.sign\<close> without an algorithm option signs HS256.
\<close>

definition verificationToken :: "jwt_config \<Rightarrow> nat \<Rightarrow> user \<Rightarrow> token" where
  "verificationToken cfg now u =
     jwt_sign now (no_claims\<lparr>claim_id := Some (user_id u), claim_email := Some (email u)\<rparr>)
       (Secret (secret cfg)) HS256 3600"

definition resetToken :: "jwt_config \<Rightarrow> nat \<Rightarrow> user \<Rightarrow> token" where
  "resetToken cfg now u =
     jwt_sign now (no_claims\<lparr>claim_id := Some (user_id u),
                              claim_username := Some (username u)\<rparr>)
       (Secret (secret cfg)) HS256 3600"

text \<open>\<^verbatim>\<open>db.user.findOne({ where: { email } })\<close>\<close>

definition user_findOne_email :: "db \<Rightarrow> string \<Rightarrow> user option" where
  "user_findOne_email d e = find (\<lambda>u. email u = e) (users d)"

definition verification :: "jwt_config \<Rightarrow> nat \<Rightarrow> db \<Rightarrow> token \<Rightarrow> response \<times> db" where
  "verification cfg now d tok =
     (case jwt_verify now (Some tok) (Secret (secret cfg)) None of
        Inl err \<Rightarrow>
          (respond 400 (message_error ''Invalid or expired verification link'' err), d)
      | Inr decoded \<Rightarrow>
          (case user_findOne_id_email d (claim_id decoded) (claim_email decoded) of
             Inl err \<Rightarrow>
               (respond 400 (message_error ''Invalid or expired verification link'' err), d)
           | Inr None \<Rightarrow> (respond 400 (message ''Invalid verification link''), d)
           | Inr (Some u) \<Rightarrow>
               (case user_save now d u (u\<lparr>emailVerified := True\<rparr>) of
                  Inl err \<Rightarrow>
                    (respond 400
                       (message_error ''Invalid or expired verification link'' err), d)
                | Inr (d', saved) \<Rightarrow>
                    (respond 200 (message ''User verified successfully''), d'))))"

text \<open>
  \<^verbatim>\<open>resetPassword\<close> takes the token from the request body (\<^verbatim>\<open>req.body.token\<close>),
  which may be missing.
\<close>

definition resetPassword ::
  "jwt_config \<Rightarrow> nat \<Rightarrow> string \<Rightarrow> db \<Rightarrow> token option \<Rightarrow> string option \<Rightarrow> response \<times> db" where
  "resetPassword cfg now salt d tok newPassword =
     (case jwt_verify now tok (Secret (secret cfg)) None of
        Inl err \<Rightarrow> (respond 400 (message_error ''Invalid or expired token'' err), d)
      | Inr decoded \<Rightarrow>
          (case user_findOne_id_username d (claim_id decoded) (claim_username decoded) of
             Inl err \<Rightarrow> (respond 400 (message_error ''Invalid or expired token'' err), d)
           | Inr None \<Rightarrow> (respond 400 (message ''Invalid or expired token''), d)
           | Inr (Some u) \<Rightarrow>
               (case bcrypt_hash salt newPassword of
                  Inl err \<Rightarrow>
                    (respond 400 (message_error ''Invalid or expired token'' err), d)
                | Inr hashedPassword \<Rightarrow>
                    (case user_save now d u (u\<lparr>password := hashedPassword\<rparr>) of
                       Inl err \<Rightarrow>
                         (respond 400 (message_error ''Invalid or expired token'' err), d)
                     | Inr (d', saved) \<Rightarrow>
                         (respond 200 (message ''Password reset successfully''), d')))))"

text \<open>
  \<^verbatim>\<open>logout\<close> runs behind \<^verbatim>\<open>verifyToken\<close> and reads the header again. A missing header
  or a missing second piece ends in the catch block.
\<close>

definition logout :: "db \<Rightarrow> req_user \<Rightarrow> token list option \<Rightarrow> response \<times> db" where
  "logout d ru authorization =
     (case authorization of
        None \<Rightarrow>
          (respond 500 (message_error ''Server error''
                          ''Cannot read properties of undefined''), d)
      | Some pieces \<Rightarrow>
          if 1 < length pieces
          then (respond 200 (message ''Logged out successfully''),
                session_update_flag d (pieces ! 1) (req_id ru))
          else (respond 500 (message_error ''Server error''
                  ''WHERE parameter \"token\" has invalid \"undefined\" value''), d))"

section \<open>user.controller.js\<close>

definition json_opt :: "string option \<Rightarrow> json" where
  "json_opt s = (case s of None \<Rightarrow> JNull | Some v \<Rightarrow> JStr v)"

text \<open>\<^verbatim>\<open>user.toJSON()\<close>: every column of the row, the password digest included.\<close>

definition toJSON :: "user \<Rightarrow> (string \<times> json) list" where
  "toJSON u =
     [(''id'', JNum (user_id u)),
      (''name'', json_opt (name u)),
      (''username'', JStr (username u)),
      (''email'', JStr (email u)),
      (''password'', JStr (digest_text (password u))),
      (''phoneNumber'', json_opt (phoneNumber u)),
      (''emailVerified'', JBool (emailVerified u)),
      (''acceptedTerms'', JBool (acceptedTerms u)),
      (''createdAt'', JNum (int (createdAt u))),
      (''updatedAt'', JNum (int (updatedAt u)))]"

text \<open>\<^verbatim>\<open>const { password, ...userData } = user.toJSON()\<close>\<close>

definition userData :: "user \<Rightarrow> json" where
  "userData u = JObj (filter (\<lambda>kv. fst kv \<noteq> ''password'') (toJSON u))"

definition getUser :: "db \<Rightarrow> req_user \<Rightarrow> response" where
  "getUser d ru =
     (case user_findByPk d (req_id ru) of
        None \<Rightarrow> respond 404 (message ''User not found'')
      | Some u \<Rightarrow> respond 200 (userData u))"

record update_body =
  upd_username :: "string option"
  upd_email :: "string option"
  upd_name :: "string option"
  upd_phoneNumber :: "string option"

text \<open>\<^verbatim>\<open>x || y\<close> on a request field and a column.\<close>

definition or_else :: "string option \<Rightarrow> string \<Rightarrow> string" where
  "or_else x y = (if falsy_string x then y else the x)"

definition or_else_opt :: "string option \<Rightarrow> string option \<Rightarrow> string option" where
  "or_else_opt x y = (if falsy_string x then y else x)"

definition updateUser :: "nat \<Rightarrow> db \<Rightarrow> req_user \<Rightarrow> update_body \<Rightarrow> response \<times> db" where
  "updateUser now d ru b =
     (case user_findByPk d (req_id ru) of
        None \<Rightarrow> (respond 404 (message ''User not found''), d)
      | Some u \<Rightarrow>
          (let u1 = u\<lparr>username := or_else (upd_username b) (username u),
                      email := or_else (upd_email b) (email u),
                      name := or_else_opt (upd_name b) (name u),
                      phoneNumber := or_else_opt (upd_phoneNumber b) (phoneNumber u)\<rparr>;
               u2 = (if \<not> falsy_string (upd_email b) then u1\<lparr>emailVerified := False\<rparr>
                     else u1)
           in case user_save now d u u2 of
                Inl err \<Rightarrow> (respond 500 (message_error ''Internal server error'' err), d)
              | Inr (d', saved) \<Rightarrow> (respond 200 (userData saved), d')))"

section \<open>role.controller.js\<close>

text \<open>
  \<^verbatim>\<open>req.params.userId\<close> is the raw text of the path segment; the only validator on it
  is \<^verbatim>\<open>notEmpty\<close>. \<^verbatim>\<open>findByPk\<close> hands the text to the database, which compares it with
  the 32-bit INTEGER key. The text is kept here as what the integer input of the
  database makes of it: the integer it denotes, of any size, or no integer at all.
\<close>

datatype path_id = IntText int | NotInt string

definition in_INTEGER :: "int \<Rightarrow> bool" where
  "in_INTEGER n = (- 2147483648 \<le> n \<and> n \<le> 2147483647)"

text \<open>
  \<^verbatim>\<open>db.user.findByPk(userId, { include: [db.role] })\<close> on the path text: the database
  raises an error for a text that is no integer or is out of the range of the key.
\<close>

definition user_findByPk_text :: "db \<Rightarrow> path_id \<Rightarrow> string + user option" where
  "user_findByPk_text d p =
     (case p of
        NotInt s \<Rightarrow> Inl ''invalid input syntax for type integer''
      | IntText n \<Rightarrow>
          if \<not> in_INTEGER n then Inl ''value is out of range for type integer''
          else Inr (user_findByPk d n))"

definition getUserRoles :: "db \<Rightarrow> path_id \<Rightarrow> response" where
  "getUserRoles d param =
     (case user_findByPk_text d param of
        Inl err \<Rightarrow> respond 500 (message_error ''Error fetching user roles'' err)
      | Inr None \<Rightarrow> respond 401 (message ''User not found'')
      | Inr (Some u) \<Rightarrow>
          respond 200 (JArr (map (\<lambda>val. JStr (roleName val)) (Roles d u))))"

section \<open>Routes\<close>

text \<open>
  \<^verbatim>\<open>validationErrorHandler\<close>: with the errors that the validators collected, 400 and
  the list; without errors, \<^verbatim>\<open>next()\<close>.
\<close>

definition validationErrorHandler :: "json list \<Rightarrow> unit middleware" where
  "validationErrorHandler errors =
     (if errors \<noteq> [] then Respond (respond 400 (JObj [(''errors'', JArr errors)]))
      else Next ())"

text \<open>
  \<^verbatim>\<open>validateLogin\<close>: one of a non-empty username or a well-formed email, and a
  password of at least six characters. The email test of express-validator is the
  parameter \<open>isEmail\<close>. Of each error object only the message is kept.
\<close>

definition validateLogin :: "(string \<Rightarrow> bool) \<Rightarrow> login_body \<Rightarrow> json list" where
  "validateLogin isEmail b =
     (if \<not> falsy_string (body_username b)
         \<or> (case body_email b of None \<Rightarrow> False | Some e \<Rightarrow> isEmail e)
      then [] else [JObj [(''msg'', JStr ''Invalid value(s)'')]])
     @ (if (case body_password b of None \<Rightarrow> False | Some p \<Rightarrow> 6 \<le> length p)
        then [] else [JObj [(''msg'', JStr ''Password must be at least 6 characters long'')]])"

text \<open>
  \<^verbatim>\<open>app.post('/login', [validateLogin, validationErrorHandler], authController.login)\<close>
\<close>

definition post_login ::
  "(string \<Rightarrow> bool) \<Rightarrow> jwt_config \<Rightarrow> nat \<Rightarrow> db \<Rightarrow> login_body \<Rightarrow> response \<times> db" where
  "post_login isEmail cfg now d b =
     (case validationErrorHandler (validateLogin isEmail b) of
        Respond r \<Rightarrow> (r, d)
      | Next u \<Rightarrow> login cfg now d b)"

text \<open>\<^verbatim>\<open>app.get('/user', [verifyToken], userController.getUser)\<close>\<close>

definition get_user :: "jwt_config \<Rightarrow> nat \<Rightarrow> db \<Rightarrow> token list option \<Rightarrow> response" where
  "get_user cfg now d authorization =
     (case verifyToken cfg now d authorization of
        Respond r \<Rightarrow> r
      | Next ru \<Rightarrow> getUser d ru)"

text \<open>\<^verbatim>\<open>app.get('/logout', [verifyToken], authController.logout)\<close>\<close>

definition get_logout ::
  "jwt_config \<Rightarrow> nat \<Rightarrow> db \<Rightarrow> token list option \<Rightarrow> response \<times> db" where
  "get_logout cfg now d authorization =
     (case verifyToken cfg now d authorization of
        Respond r \<Rightarrow> (r, d)
      | Next ru \<Rightarrow> logout d ru authorization)"

text \<open>
  \<^verbatim>\<open>app.put('/user', [verifyToken, validateUserUpdate, validationErrorHandler], ...)\<close>.
  \<open>errors\<close> is what \<^verbatim>\<open>validateUserUpdate\<close> collected on the body.
\<close>

definition put_user ::
  "jwt_config \<Rightarrow> nat \<Rightarrow> db \<Rightarrow> token list option \<Rightarrow> json list \<Rightarrow> update_body
     \<Rightarrow> response \<times> db" where
  "put_user cfg now d authorization errors b =
     (case verifyToken cfg now d authorization of
        Respond r \<Rightarrow> (r, d)
      | Next ru \<Rightarrow>
          (case validationErrorHandler errors of
             Respond r \<Rightarrow> (r, d)
           | Next u \<Rightarrow> updateUser now d ru b))"

section \<open>Sequences of requests\<close>

text \<open>
  A request that can change the database, with the clock at which it is served and
  its inputs. The remaining handlers that write (\<^verbatim>\<open>signup\<close>, \<^verbatim>\<open>changePassword\<close>,
  \<^verbatim>\<open>createRole\<close>, \<^verbatim>\<open>assignRoleToUser\<close>) have statements on \<^verbatim>\<open>db.user\<close>, \<^verbatim>\<open>db.role\<close>
  and \<^verbatim>\<open>db.user_roles\<close> only and none on \<^verbatim>\<open>db.session\<close>; they are covered by
  \<open>OtherWrite\<close>, which puts arbitrary new contents into these three tables.
\<close>

datatype request =
    PostLogin nat login_body
  | GetLogout nat "token list option"
  | GetVerification nat token
  | PostResetPassword nat string "token option" "string option"
  | PutUser nat "token list option" "json list" update_body
  | OtherWrite "user list" "role list" "user_role list"

fun handle :: "jwt_config \<Rightarrow> db \<Rightarrow> request \<Rightarrow> db" where
  "handle cfg d (PostLogin now b) = snd (login cfg now d b)"
| "handle cfg d (GetLogout now authorization) = snd (get_logout cfg now d authorization)"
| "handle cfg d (GetVerification now tok) = snd (verification cfg now d tok)"
| "handle cfg d (PostResetPassword now salt tok newPassword) =
     snd (resetPassword cfg now salt d tok newPassword)"
| "handle cfg d (PutUser now authorization errors b) =
     snd (put_user cfg now d authorization errors b)"
| "handle cfg d (OtherWrite us rs urs) = d\<lparr>users := us, roles := rs, user_roles := urs\<rparr>"

definition run :: "jwt_config \<Rightarrow> db \<Rightarrow> request list \<Rightarrow> db" where
  "run cfg d reqs = foldl (handle cfg) d reqs"

text \<open>The session table holds a record for the token and its flag is set.\<close>

definition revoked :: "db \<Rightarrow> token \<Rightarrow> bool" where
  "revoked d t = (case session_findOne d t of None \<Rightarrow> False | Some s \<Rightarrow> flag s)"

text \<open>
  Every session record holds a JWT and belongs to the user that its token names.
  \<^verbatim>\<open>login\<close> creates no other records.
\<close>

definition sessions_wf :: "db \<Rightarrow> bool" where
  "sessions_wf d =
     list_all (\<lambda>s. case session_token s of
                      Opaque x \<Rightarrow> False
                    | Jwt alg k c \<Rightarrow> userId s = claim_id c)
              (sessions d)"

section \<open>Reading responses\<close>

text \<open>A JSON object has a field of the given name.\<close>

fun has_field :: "string \<Rightarrow> json \<Rightarrow> bool" where
  "has_field k (JObj kvs) = (k \<in> set (map fst kvs))"
| "has_field k j = False"

text \<open>Two databases that differ at most in the password digests of their users.\<close>

definition forget_password :: "user \<Rightarrow> user" where
  "forget_password u = u\<lparr>password := Bcrypt [] []\<rparr>"

definition same_but_passwords :: "db \<Rightarrow> db \<Rightarrow> bool" where
  "same_but_passwords d1 d2 =
     (d1\<lparr>users := map forget_password (users d1)\<rparr>
        = d2\<lparr>users := map forget_password (users d2)\<rparr>)"

text \<open>
  The error taxonomy of the specification (its section on error handling), with the
  HTTP status it gives for each kind: validation 400, authentication 401,
  authorization 403, not found 404, conflict 409, internal 500. This definition
  follows the specification, not the code.
\<close>

datatype error_kind =
    ValidationError | AuthenticationError | AuthorizationError
  | NotFoundError | ConflictError | InternalError

definition spec_error_kind :: "nat \<Rightarrow> error_kind option" where
  "spec_error_kind code =
     (if code = 400 then Some ValidationError
      else if code = 401 then Some AuthenticationError
      else if code = 403 then Some AuthorizationError
      else if code = 404 then Some NotFoundError
      else if code = 409 then Some ConflictError
      else if code = 500 then Some InternalError
      else None)"

section \<open>Sample data\<close>

definition cfg0 :: jwt_config where
  "cfg0 = \<lparr>secret = ''s3cret'', publicKey = RsaPublic 1, privateKey = RsaPrivate 1\<rparr>"

definition alice :: user where
  "alice = \<lparr>user_id = 1, name = Some ''Alice'', username = ''alice'',
            email = ''alice@x.com'', password = Bcrypt ''salt'' ''secret1'',
            phoneNumber = None, emailVerified = False, acceptedTerms = True,
            createdAt = 5, updatedAt = 5\<rparr>"

definition bob :: user where
  "bob = \<lparr>user_id = 2, name = None, username = ''bob'',
          email = ''bob@x.com'', password = Bcrypt ''pepper'' ''hunter22'',
          phoneNumber = None, emailVerified = True, acceptedTerms = True,
          createdAt = 6, updatedAt = 6\<rparr>"

definition db0 :: db where
  "db0 = \<lparr>users = [alice, bob], sessions = [],
          roles = [\<lparr>role_id = 1, roleName = ''user'', description = Some ''User Role''\<rparr>,
                   \<lparr>role_id = 2, roleName = ''admin'',
                    description = Some ''Administrator role''\<rparr>],
          user_roles = [\<lparr>ur_userId = 1, ur_roleId = 1\<rparr>]\<rparr>"

definition alice_login :: login_body where
  "alice_login = \<lparr>body_username = Some ''alice'', body_email = None,
                  body_password = Some ''secret1''\<rparr>"

definition alice_token :: token where
  "alice_token = Jwt RS256 (RsaPrivate 1)
     \<lparr>claim_id = Some 1, claim_username = Some ''alice'', claim_email = None,
      claim_verified = Some False, iat = 100, exp = Some 3700\<rparr>"

definition Bearer :: "token \<Rightarrow> token list option" where
  "Bearer t = Some [Opaque ''Bearer'', t]"

text \<open>Alice logs in at second 100 and logs out at second 200.\<close>

definition db_revoked :: db where
  "db_revoked = run cfg0 db0 [PostLogin 100 alice_login, GetLogout 200 (Bearer alice_token)]"

text \<open>Alice has logged in at second 100 and nothing else has happened.\<close>

definition db_logged_in :: db where
  "db_logged_in = run cfg0 db0 [PostLogin 100 alice_login]"

definition alice_wrong_password :: login_body where
  "alice_wrong_password = \<lparr>body_username = Some ''alice'', body_email = None,
                           body_password = Some ''letmein''\<rparr>"

definition carol_login :: login_body where
  "carol_login = \<lparr>body_username = Some ''carol'', body_email = None,
                  body_password = Some ''secret1''\<rparr>"

definition alice_email_login :: login_body where
  "alice_email_login = \<lparr>body_username = None, body_email = Some ''alice@x.com'',
                        body_password = Some ''secret1''\<rparr>"

text \<open>A stand-in for the email test of the validator: the address contains an at sign.\<close>

definition has_at :: "string \<Rightarrow> bool" where
  "has_at e = (CHR ''@'' \<in> set e)"

text \<open>A token signed with the private key whose payload has an id and no username.\<close>

definition nameless_token :: token where
  "nameless_token = Jwt RS256 (RsaPrivate 1)
     \<lparr>claim_id = Some 1, claim_username = None, claim_email = None,
      claim_verified = Some False, iat = 100, exp = Some 3700\<rparr>"

definition admin_user :: req_user where
  "admin_user = \<lparr>req_id = 2, req_username = ''bob'', verified = True,
                 req_role = Some [''user'', ''admin'']\<rparr>"

definition plain_user :: req_user where
  "plain_user = \<lparr>req_id = 1, req_username = ''alice'', verified = False,
                 req_role = Some [''user'']\<rparr>"

definition roleless_user :: req_user where
  "roleless_user = \<lparr>req_id = 1, req_username = ''alice'', verified = False,
                    req_role = None\<rparr>"

text \<open>Alice's verification link, issued at second 50, has been followed at second 60.\<close>

definition db_verified :: db where
  "db_verified = run cfg0 db0 [GetVerification 60 (verificationToken cfg0 50 alice)]"

text \<open>The database after Alice's login, with another digest stored for her.\<close>

definition db_logged_in_other_password :: db where
  "db_logged_in_other_password =
     db_logged_in\<lparr>users := [alice\<lparr>password := Bcrypt ''sugar'' ''correct horse''\<rparr>, bob]\<rparr>"

definition rename_alice :: update_body where
  "rename_alice = \<lparr>upd_username = None, upd_email = None, upd_name = Some ''Alice L.'',
                   upd_phoneNumber = Some ''555-0100''\<rparr>"

section \<open>The session table under sequences of requests\<close>

lemma find_map_same_token:
  assumes "\<And>s. session_token (f s) = session_token s"
  shows "find (\<lambda>s. session_token s = t) (map f xs)
           = map_option f (find (\<lambda>s. session_token s = t) xs)"
  by (induction xs) (simp_all add: assms)

lemma find_append_Some:
  "find P xs = Some x \<Longrightarrow> find P (xs @ ys) = Some x"
  by (induction xs) (auto split: if_splits)

lemma revoked_session_update_flag:
  "revoked d t \<Longrightarrow> revoked (session_update_flag d t' u) t"
  by (auto simp: revoked_def session_findOne_def session_update_flag_def
        find_map_same_token split: option.splits)

lemma revoked_session_create:
  "revoked d t \<Longrightarrow> session_create d s = Inr d' \<Longrightarrow> revoked d' t"
  by (auto simp: revoked_def session_findOne_def session_create_def find_append_Some
        split: option.splits if_splits)

lemma sessions_user_save:
  "user_save now d old new = Inr (d', saved) \<Longrightarrow> sessions d' = sessions d"
  by (auto simp: user_save_def Let_def split: if_splits)

lemma revoked_cong: "sessions d' = sessions d \<Longrightarrow> revoked d' t = revoked d t"
  by (simp add: revoked_def session_findOne_def)

lemma revoked_login: "revoked d t \<Longrightarrow> revoked (snd (login cfg now d b)) t"
  by (auto simp: login_def Let_def split: option.splits sum.splits
        dest: revoked_session_create)

lemma revoked_logout: "revoked d t \<Longrightarrow> revoked (snd (logout d ru a)) t"
  by (auto simp: logout_def revoked_session_update_flag split: option.splits)

lemma revoked_get_logout: "revoked d t \<Longrightarrow> revoked (snd (get_logout cfg now d a)) t"
  by (auto simp: get_logout_def revoked_logout split: middleware.splits)

lemma sessions_verification: "sessions (snd (verification cfg now d tok)) = sessions d"
  by (auto simp: verification_def split: sum.splits option.splits
        dest: sessions_user_save)

lemma sessions_resetPassword:
  "sessions (snd (resetPassword cfg now salt d tok pw)) = sessions d"
  by (auto simp: resetPassword_def split: sum.splits option.splits
        dest: sessions_user_save)

lemma sessions_updateUser: "sessions (snd (updateUser now d ru b)) = sessions d"
  by (auto simp: updateUser_def Let_def split: sum.splits option.splits
        dest: sessions_user_save)

lemma sessions_put_user: "sessions (snd (put_user cfg now d a errors b)) = sessions d"
  by (auto simp: put_user_def sessions_updateUser split: middleware.splits)

lemma revoked_other_tables:
  "revoked (d\<lparr>users := us, roles := rs, user_roles := urs\<rparr>) t = revoked d t"
  by (simp add: revoked_def session_findOne_def)

text \<open>No request clears a flag or removes a session record.\<close>

lemma revoked_handle: "revoked d t \<Longrightarrow> revoked (handle cfg d r) t"
  by (cases r)
     (simp_all add: revoked_login revoked_get_logout
        revoked_cong[OF sessions_verification] revoked_cong[OF sessions_resetPassword]
        revoked_cong[OF sessions_put_user] revoked_other_tables)

lemma revoked_run: "revoked d t \<Longrightarrow> revoked (run cfg d reqs) t"
  unfolding run_def by (induction reqs arbitrary: d) (simp_all add: revoked_handle)

lemma verifyToken_rejects:
  assumes "bearer authorization = Some tok"
    and "revoked d tok \<or> session_findOne d tok = None"
  shows "\<exists>r. verifyToken cfg now d authorization = Respond r \<and> statusCode r = 401"
  using assms
  by (auto simp: verifyToken_def revoked_def respond_def split: option.splits sum.splits)

lemma verifyToken_blacklisted:
  assumes "bearer authorization = Some tok"
    and "revoked d tok \<or> session_findOne d tok = None"
    and "jwt_verify now (Some tok) (publicKey cfg) (Some [RS256]) = Inr decoded"
    and "\<not> falsy_id (claim_id decoded)" and "\<not> falsy_string (claim_username decoded)"
  shows "verifyToken cfg now d authorization
           = Respond (respond 401 (message ''Token is blacklisted''))"
  using assms
  by (auto simp: verifyToken_def revoked_def jwt_verify_def split: option.splits sum.splits)

text \<open>
  What \<^verbatim>\<open>logout\<close> does to the record of the token it is called with: when the
  middleware has let the request through and the record belongs to the user it
  attached, the record is flagged afterwards.
\<close>

lemma logout_revokes:
  assumes "verifyToken cfg now d authorization = Next ru"
    and "bearer authorization = Some tok"
    and "session_findOne d tok = Some s" and "userId s = Some (req_id ru)"
  shows "revoked (snd (get_logout cfg now d authorization)) tok"
  using assms
  by (auto simp: get_logout_def logout_def bearer_def revoked_def session_findOne_def
        session_update_flag_def find_map_same_token split: option.splits if_splits
        dest!: find_Some_iff[THEN iffD1])

text \<open>
  The records of the session table are those that \<^verbatim>\<open>login\<close> created, so the owner of
  a record is the user named in its token. Hence a logout that the middleware lets
  through always flags the record of the presented token, and the token is refused
  from then on.
\<close>

lemma sessions_wf_cong: "sessions d' = sessions d \<Longrightarrow> sessions_wf d' = sessions_wf d"
  by (simp add: sessions_wf_def)

lemma sessions_wf_login: "sessions_wf d \<Longrightarrow> sessions_wf (snd (login cfg now d b))"
  by (auto simp: login_def Let_def session_create_def sessions_wf_def jwt_sign_def
        no_claims_def split: option.splits)

lemma sessions_wf_update_flag: "sessions_wf d \<Longrightarrow> sessions_wf (session_update_flag d t u)"
  by (auto simp: sessions_wf_def session_update_flag_def list_all_iff split: token.splits)

lemma sessions_wf_get_logout:
  "sessions_wf d \<Longrightarrow> sessions_wf (snd (get_logout cfg now d a))"
  by (auto simp: get_logout_def logout_def sessions_wf_update_flag
        split: middleware.splits option.splits)

lemma sessions_wf_other_tables:
  "sessions_wf (d\<lparr>users := us, roles := rs, user_roles := urs\<rparr>) = sessions_wf d"
  by (simp add: sessions_wf_def)

lemma sessions_wf_handle: "sessions_wf d \<Longrightarrow> sessions_wf (handle cfg d r)"
  by (cases r)
     (simp_all add: sessions_wf_login sessions_wf_get_logout
        sessions_wf_cong[OF sessions_verification] sessions_wf_cong[OF sessions_resetPassword]
        sessions_wf_cong[OF sessions_put_user] sessions_wf_other_tables)

lemma sessions_wf_run: "sessions_wf d \<Longrightarrow> sessions_wf (run cfg d reqs)"
  unfolding run_def by (induction reqs arbitrary: d) (simp_all add: sessions_wf_handle)

lemma sessions_wf_empty: "sessions d = [] \<Longrightarrow> sessions_wf d"
  by (simp add: sessions_wf_def)

lemma verifyToken_Next_owner:
  assumes "sessions_wf d" and "verifyToken cfg now d authorization = Next ru"
    and "bearer authorization = Some tok"
  shows "\<exists>s. session_findOne d tok = Some s \<and> userId s = Some (req_id ru)"
proof -
  from assms(2,3) obtain decoded s u where
    j: "jwt_verify now (Some tok) (publicKey cfg) (Some [RS256]) = Inr decoded"
    and f: "session_findOne d tok = Some s"
    and u: "user_findOne_id_username d (claim_id decoded) (claim_username decoded)
              = Inr (Some u)"
    and ru: "req_id ru = user_id u"
    by (auto simp: verifyToken_def split: option.splits sum.splits if_splits)
  from u have i: "claim_id decoded = Some (user_id u)"
    by (auto simp: user_findOne_id_username_def split: option.splits
          dest!: find_Some_iff[THEN iffD1])
  from j obtain alg k where t: "tok = Jwt alg k decoded"
    by (auto simp: jwt_verify_def Let_def split: token.splits if_splits)
  from f have "s \<in> set (sessions d)" "session_token s = tok"
    by (auto simp: session_findOne_def find_Some_iff)
  with assms(1) t have "userId s = claim_id decoded"
    by (auto simp: sessions_wf_def list_all_iff)
  with f i ru show ?thesis by simp
qed

lemma logout_is_final:
  assumes "sessions_wf d" and "verifyToken cfg now d authorization = Next ru"
  shows "\<exists>r. verifyToken cfg now' (run cfg (snd (get_logout cfg now d authorization)) reqs)
               authorization = Respond r \<and> statusCode r = 401"
proof -
  from assms(2) obtain tok where b: "bearer authorization = Some tok"
    by (auto simp: verifyToken_def split: option.splits)
  from verifyToken_Next_owner[OF assms b] obtain s where
    "session_findOne d tok = Some s" "userId s = Some (req_id ru)" by blast
  from logout_revokes[OF assms(2) b this]
  have "revoked (snd (get_logout cfg now d authorization)) tok" .
  then have "revoked (run cfg (snd (get_logout cfg now d authorization)) reqs) tok"
    by (rule revoked_run)
  then show ?thesis using verifyToken_rejects[OF b] by blast
qed

section \<open>Revoked and unknown session tokens\<close>

text \<open>
  C1. A bearer token whose session record is flagged stays rejected: whatever
  requests are served after the flag was set (\<open>d\<close> is reached from \<open>d0\<close> by any
  sequence of requests), and likewise a token with no session record at all, the
  middleware \<^verbatim>\<open>verifyToken\<close> answers 401 and does not call \<^verbatim>\<open>next()\<close>, so that the
  routes behind it answer with that response and leave the database alone. When the
  token still verifies against the public key and carries its id and username, the
  answer is the message 'Token is blacklisted'.
\<close>

theorem revoked_token_rejected:
  assumes "bearer authorization = Some tok"
    and "(revoked d0 tok \<and> d = run cfg d0 reqs) \<or> session_findOne d tok = None"
  shows "\<exists>r. verifyToken cfg now d authorization = Respond r \<and> statusCode r = 401
           \<and> get_user cfg now d authorization = r
           \<and> get_logout cfg now d authorization = (r, d)
           \<and> put_user cfg now d authorization errors b = (r, d)
           \<and> (\<forall>decoded. jwt_verify now (Some tok) (publicKey cfg) (Some [RS256]) = Inr decoded
                  \<and> \<not> falsy_id (claim_id decoded)
                  \<and> \<not> falsy_string (claim_username decoded)
                \<longrightarrow> body r = message ''Token is blacklisted'')"
proof -
  from assms(2) have st: "revoked d tok \<or> session_findOne d tok = None"
    by (auto simp: revoked_run)
  from verifyToken_rejects[OF assms(1) st]
  obtain r where r: "verifyToken cfg now d authorization = Respond r" "statusCode r = 401"
    by blast
  have "body r = message ''Token is blacklisted''"
    if "jwt_verify now (Some tok) (publicKey cfg) (Some [RS256]) = Inr decoded"
      "\<not> falsy_id (claim_id decoded)" "\<not> falsy_string (claim_username decoded)"
    for decoded
    using verifyToken_blacklisted[OF assms(1) st that] r(1) by (simp add: respond_def)
  moreover from r(1) have "get_user cfg now d authorization = r"
    "get_logout cfg now d authorization = (r, d)"
    "put_user cfg now d authorization errors b = (r, d)"
    by (simp_all add: get_user_def get_logout_def put_user_def)
  ultimately show ?thesis using r by blast
qed

text \<open>
  Alice's token, issued at second 100 and revoked by her logout at second 200, is
  presented at second 300, after a further login; it is still within its hour. The
  same token is also presented to the sample database, which has no session record.
\<close>

theorem revoked_token_rejected_witness:
  "bearer (Bearer alice_token) = Some alice_token
   \<and> revoked db_revoked alice_token
   \<and> verifyToken cfg0 300 (run cfg0 db_revoked [PostLogin 250 alice_login])
         (Bearer alice_token)
       = Respond (respond 401 (message ''Token is blacklisted''))
   \<and> session_findOne db0 alice_token = None
   \<and> verifyToken cfg0 300 db0 (Bearer alice_token)
       = Respond (respond 401 (message ''Token is blacklisted''))"
proof -
  have b: "bearer (Bearer alice_token) = Some alice_token" by code_simp
  have r: "revoked db_revoked alice_token" by code_simp
  have n: "session_findOne db0 alice_token = None" by code_simp
  have j: "jwt_verify 300 (Some alice_token) (publicKey cfg0) (Some [RS256])
             = Inr \<lparr>claim_id = Some 1, claim_username = Some ''alice'', claim_email = None,
                    claim_verified = Some False, iat = 100, exp = Some 3700\<rparr>"
    by code_simp
  have c: "\<not> falsy_id (Some 1)" "\<not> falsy_string (Some ''alice'')"
    by (simp_all add: falsy_id_def falsy_string_def)
  from revoked_token_rejected
         [OF b, where ?d0.0 = db_revoked and cfg = cfg0
            and reqs = "[PostLogin 250 alice_login]" and now = 300] r
  obtain x where x:
     "verifyToken cfg0 300 (run cfg0 db_revoked [PostLogin 250 alice_login])
        (Bearer alice_token) = Respond x"
     "statusCode x = 401"
     "\<forall>decoded. jwt_verify 300 (Some alice_token) (publicKey cfg0) (Some [RS256]) = Inr decoded
                  \<and> \<not> falsy_id (claim_id decoded)
                  \<and> \<not> falsy_string (claim_username decoded)
                \<longrightarrow> body x = message ''Token is blacklisted''"
    by blast
  from x(3) j c have "body x = message ''Token is blacklisted''" by simp
  with x(1,2) have 1: "verifyToken cfg0 300 (run cfg0 db_revoked [PostLogin 250 alice_login])
         (Bearer alice_token) = Respond (respond 401 (message ''Token is blacklisted''))"
    by (simp add: respond_def)
  from revoked_token_rejected[OF b, where d = db0 and cfg = cfg0 and now = 300] n
  obtain y where y:
     "verifyToken cfg0 300 db0 (Bearer alice_token) = Respond y"
     "statusCode y = 401"
     "\<forall>decoded. jwt_verify 300 (Some alice_token) (publicKey cfg0) (Some [RS256]) = Inr decoded
                  \<and> \<not> falsy_id (claim_id decoded)
                  \<and> \<not> falsy_string (claim_username decoded)
                \<longrightarrow> body y = message ''Token is blacklisted''"
    by blast
  from y(3) j c have "body y = message ''Token is blacklisted''" by simp
  with y(1,2) have 2: "verifyToken cfg0 300 db0 (Bearer alice_token)
       = Respond (respond 401 (message ''Token is blacklisted''))"
    by (simp add: respond_def)
  from b r n 1 2 show ?thesis by blast
qed

section \<open>Session tokens and action tokens\<close>

lemma action_token_not_session:
  assumes "tok = verificationToken cfg t0 u \<or> tok = resetToken cfg t0 u"
    and "bearer authorization = Some tok"
  shows "verifyToken cfg now d authorization
           = Respond (respond 401 (message ''Invalid token''))"
  using assms
  by (auto simp: verifyToken_def verificationToken_def resetToken_def jwt_sign_def
        jwt_verify_def)

lemma session_token_not_action:
  assumes "tok = Jwt RS256 signer payload"
  shows "verification cfg now d tok
           = (respond 400 (message_error ''Invalid or expired verification link''
                             ''invalid algorithm''), d)"
    and "resetPassword cfg now salt d (Some tok) pw
           = (respond 400 (message_error ''Invalid or expired token''
                             ''invalid algorithm''), d)"
  using assms
  by (simp_all add: verification_def resetPassword_def jwt_verify_def HS_ALGS_def)

lemma verify_token_not_reset:
  "\<exists>r. resetPassword cfg now salt d (Some (verificationToken cfg t0 u)) pw = (r, d)
       \<and> statusCode r = 400"
  by (auto simp: resetPassword_def verificationToken_def jwt_sign_def jwt_verify_def
        HS_ALGS_def signature_ok_def no_claims_def user_findOne_id_username_def respond_def)

lemma reset_token_not_verify:
  "\<exists>r. verification cfg now d (resetToken cfg t0 u) = (r, d) \<and> statusCode r = 400"
  by (auto simp: verification_def resetToken_def jwt_sign_def jwt_verify_def
        HS_ALGS_def signature_ok_def no_claims_def user_findOne_id_email_def respond_def)

text \<open>
  C2. The two token families are not interchangeable. A verification or reset token
  (HS256 under the shared secret) presented as the bearer token gets 401 from
  \<^verbatim>\<open>verifyToken\<close>, which admits RS256 only. Any RS256 token gets 400 from
  \<^verbatim>\<open>verification\<close> and from \<^verbatim>\<open>resetPassword\<close>, which verify with the secret. A
  verification token gets 400 from \<^verbatim>\<open>resetPassword\<close> and a reset token gets 400 from
  \<^verbatim>\<open>verification\<close>, because each looks the user up by a claim the other token does
  not carry. \<^verbatim>\<open>resetPassword\<close> reads the token from the body, so a request that
  carries a token in the path only gets 400 as well. In the 400 cases the database is
  left as it was.
\<close>

theorem token_families_not_interchangeable:
  "(\<forall>authorization. bearer authorization = Some (verificationToken cfg t0 u)
        \<or> bearer authorization = Some (resetToken cfg t0 u)
      \<longrightarrow> verifyToken cfg now d authorization
            = Respond (respond 401 (message ''Invalid token'')))
   \<and> (\<forall>signer payload.
        (\<exists>r. verification cfg now d (Jwt RS256 signer payload) = (r, d) \<and> statusCode r = 400)
      \<and> (\<exists>r. resetPassword cfg now salt d (Some (Jwt RS256 signer payload)) pw = (r, d)
             \<and> statusCode r = 400))
   \<and> (\<exists>r. resetPassword cfg now salt d (Some (verificationToken cfg t0 u)) pw = (r, d)
          \<and> statusCode r = 400)
   \<and> (\<exists>r. verification cfg now d (resetToken cfg t0 u) = (r, d) \<and> statusCode r = 400)
   \<and> (\<exists>r. resetPassword cfg now salt d None pw = (r, d) \<and> statusCode r = 400)"
proof (intro conjI allI impI)
  fix authorization
  assume "bearer authorization = Some (verificationToken cfg t0 u)
            \<or> bearer authorization = Some (resetToken cfg t0 u)"
  then show "verifyToken cfg now d authorization
               = Respond (respond 401 (message ''Invalid token''))"
    using action_token_not_session by blast
next
  fix signer payload
  show "\<exists>r. verification cfg now d (Jwt RS256 signer payload) = (r, d) \<and> statusCode r = 400"
    by (simp add: session_token_not_action(1) respond_def)
  show "\<exists>r. resetPassword cfg now salt d (Some (Jwt RS256 signer payload)) pw = (r, d)
              \<and> statusCode r = 400"
    by (simp add: session_token_not_action(2) respond_def)
next
  show "\<exists>r. resetPassword cfg now salt d (Some (verificationToken cfg t0 u)) pw = (r, d)
          \<and> statusCode r = 400"
    by (rule verify_token_not_reset)
next
  show "\<exists>r. verification cfg now d (resetToken cfg t0 u) = (r, d) \<and> statusCode r = 400"
    by (rule reset_token_not_verify)
next
  show "\<exists>r. resetPassword cfg now salt d None pw = (r, d) \<and> statusCode r = 400"
    by (simp add: resetPassword_def jwt_verify_def respond_def)
qed

text \<open>
  Alice's two action tokens of second 50 and her session token, each at the wrong
  door at second 60; the last two lines show each action token accepted at its own.
\<close>

theorem token_families_not_interchangeable_witness:
  "bearer (Bearer (verificationToken cfg0 50 alice)) = Some (verificationToken cfg0 50 alice)
   \<and> verifyToken cfg0 60 db0 (Bearer (verificationToken cfg0 50 alice))
       = Respond (respond 401 (message ''Invalid token''))
   \<and> statusCode (fst (verification cfg0 60 db0 alice_token)) = 400
   \<and> statusCode (fst (resetPassword cfg0 60 ''salt'' db0 (Some alice_token)
                        (Some ''newpass1''))) = 400
   \<and> statusCode (fst (resetPassword cfg0 60 ''salt'' db0
                        (Some (verificationToken cfg0 50 alice)) (Some ''newpass1''))) = 400
   \<and> statusCode (fst (verification cfg0 60 db0 (resetToken cfg0 50 alice))) = 400
   \<and> statusCode (fst (verification cfg0 60 db0 (verificationToken cfg0 50 alice))) = 200
   \<and> statusCode (fst (resetPassword cfg0 60 ''salt'' db0
                        (Some (resetToken cfg0 50 alice)) (Some ''newpass1''))) = 200"
proof -
  have b: "bearer (Bearer (verificationToken cfg0 50 alice))
             = Some (verificationToken cfg0 50 alice)"
    by (simp add: bearer_def Bearer_def)
  note c = token_families_not_interchangeable
             [of cfg0 50 alice 60 db0 "''salt''" "Some ''newpass1''"]
  from c b have 1: "verifyToken cfg0 60 db0 (Bearer (verificationToken cfg0 50 alice))
       = Respond (respond 401 (message ''Invalid token''))" by blast
  from c have 2: "statusCode (fst (verification cfg0 60 db0 alice_token)) = 400"
    unfolding alice_token_def by (metis fst_conv)
  from c have 3: "statusCode (fst (resetPassword cfg0 60 ''salt'' db0 (Some alice_token)
                        (Some ''newpass1''))) = 400"
    unfolding alice_token_def by (metis fst_conv)
  from c have 4: "statusCode (fst (resetPassword cfg0 60 ''salt'' db0
                        (Some (verificationToken cfg0 50 alice)) (Some ''newpass1''))) = 400"
    by (metis fst_conv)
  from c have 5: "statusCode (fst (verification cfg0 60 db0 (resetToken cfg0 50 alice))) = 400"
    by (metis fst_conv)
  have 6: "statusCode (fst (verification cfg0 60 db0 (verificationToken cfg0 50 alice))) = 200"
    by code_simp
  have 7: "statusCode (fst (resetPassword cfg0 60 ''salt'' db0
                        (Some (resetToken cfg0 50 alice)) (Some ''newpass1''))) = 200"
    by code_simp
  from b 1 2 3 4 5 6 7 show ?thesis by blast
qed

section \<open>Login\<close>

text \<open>
  C3. A login whose username is unknown, or whose password does not match the stored
  digest, is answered 401 'Invalid username or password' and leaves the database as
  it was (first conjunct; the request carries a non-empty username and password, the
  presence check before the lookup answers 400 otherwise). No response other than 200
  comes with a changed database (second conjunct), and a changed database means that
  the user was found and the password comparison succeeded (third conjunct).
\<close>

theorem failed_login_creates_no_session:
  "(body_username b = Some n \<and> n \<noteq> [] \<and> body_password b = Some p \<and> p \<noteq> []
      \<and> (user_findOne_username d n = None
          \<or> (\<exists>u. user_findOne_username d n = Some u \<and> \<not> bcrypt_compare p (password u)))
    \<longrightarrow> login cfg now d b = (respond 401 (message ''Invalid username or password''), d))
   \<and> (statusCode (fst (login cfg now d b)) \<noteq> 200 \<longrightarrow> snd (login cfg now d b) = d)
   \<and> (snd (login cfg now d b) \<noteq> d
        \<longrightarrow> (\<exists>n p u. body_username b = Some n \<and> body_password b = Some p
               \<and> user_findOne_username d n = Some u \<and> bcrypt_compare p (password u)))"
  by (auto simp: login_def Let_def falsy_string_def respond_def
        split: option.splits sum.splits)

text \<open>
  Alice with a wrong password and the unknown Carol are refused and nothing is
  stored; Alice with her password changes the database.
\<close>

theorem failed_login_creates_no_session_witness:
  "login cfg0 100 db0 alice_wrong_password
     = (respond 401 (message ''Invalid username or password''), db0)
   \<and> login cfg0 100 db0 carol_login
     = (respond 401 (message ''Invalid username or password''), db0)
   \<and> snd (login cfg0 100 db0 alice_login) \<noteq> db0
   \<and> user_findOne_username db0 ''alice'' = Some alice
   \<and> bcrypt_compare ''secret1'' (password alice)"
proof -
  have a: "body_username alice_wrong_password = Some ''alice'' \<and> ''alice'' \<noteq> []
      \<and> body_password alice_wrong_password = Some ''letmein'' \<and> ''letmein'' \<noteq> []
      \<and> (user_findOne_username db0 ''alice'' = None
          \<or> (\<exists>u. user_findOne_username db0 ''alice'' = Some u
                 \<and> \<not> bcrypt_compare ''letmein'' (password u)))"
    by (simp add: alice_wrong_password_def user_findOne_username_def db0_def alice_def
          bcrypt_compare_def)
  have c: "body_username carol_login = Some ''carol'' \<and> ''carol'' \<noteq> []
      \<and> body_password carol_login = Some ''secret1'' \<and> ''secret1'' \<noteq> []
      \<and> (user_findOne_username db0 ''carol'' = None
          \<or> (\<exists>u. user_findOne_username db0 ''carol'' = Some u
                 \<and> \<not> bcrypt_compare ''secret1'' (password u)))"
    by (simp add: carol_login_def user_findOne_username_def db0_def alice_def bob_def)
  have n: "snd (login cfg0 100 db0 alice_login) \<noteq> db0" by code_simp
  have f: "user_findOne_username db0 ''alice'' = Some alice" by code_simp
  have m: "bcrypt_compare ''secret1'' (password alice)" by code_simp
  from failed_login_creates_no_session
         [of alice_wrong_password "''alice''" "''letmein''" db0 cfg0 100] a
  have 1: "login cfg0 100 db0 alice_wrong_password
     = (respond 401 (message ''Invalid username or password''), db0)" by blast
  from failed_login_creates_no_session
         [of carol_login "''carol''" "''secret1''" db0 cfg0 100] c
  have 2: "login cfg0 100 db0 carol_login
     = (respond 401 (message ''Invalid username or password''), db0)" by blast
  from 1 2 n f m show ?thesis by blast
qed

lemma find_append_None:
  "find P xs = None \<Longrightarrow> find P (xs @ ys) = find P ys"
  by (induction xs) (auto split: if_splits)

lemma login_ok:
  assumes "body_username b = Some n" "n \<noteq> []" "body_password b = Some p" "p \<noteq> []"
    and "user_findOne_username d n = Some u" "bcrypt_compare p (password u)"
    and "tok = Jwt RS256 (privateKey cfg)
                 \<lparr>claim_id = Some (user_id u), claim_username = Some (username u),
                  claim_email = None, claim_verified = Some (emailVerified u),
                  iat = now, exp = Some (now + 3600)\<rparr>"
    and "session_findOne d tok = None"
  shows "login cfg now d b
           = (respond 200 (JObj [(''token'', JToken tok)]),
              d\<lparr>sessions := sessions d @ [\<lparr>session_token = tok, flag = False,
                                            expiresAt = None, userId = Some (user_id u)\<rparr>]\<rparr>)"
  using assms
  by (auto simp: login_def Let_def falsy_string_def jwt_sign_def no_claims_def
        session_create_def session_findOne_def list_ex_iff find_None_iff)

text \<open>
  What \<^verbatim>\<open>login\<close> does when the token it signs is not yet in the session table: the
  answer is 200 with a token signed RS256 with the private key, whose payload is the
  user's id, username and email-verified flag and nothing else but the issue time and
  the expiry one hour later. With the key files holding the two halves of one pair,
  the verifier of the middleware returns exactly this payload until the hour is over
  and 'jwt expired' from then on. The session record is stored unflagged for that
  user.
\<close>

theorem login_issues_session_token:
  assumes "body_username b = Some n" "n \<noteq> []" "body_password b = Some p" "p \<noteq> []"
    and "user_findOne_username d n = Some u" "bcrypt_compare p (password u)"
    and "privateKey cfg = RsaPrivate k" "publicKey cfg = RsaPublic k"
    and "decoded = \<lparr>claim_id = Some (user_id u), claim_username = Some (username u),
                  claim_email = None, claim_verified = Some (emailVerified u),
                  iat = now, exp = Some (now + 3600)\<rparr>"
    and "session_findOne d (Jwt RS256 (privateKey cfg) decoded) = None"
  shows "\<exists>d'. login cfg now d b
                = (respond 200
                     (JObj [(''token'', JToken (Jwt RS256 (privateKey cfg) decoded))]), d')
           \<and> session_findOne d' (Jwt RS256 (privateKey cfg) decoded)
               = Some \<lparr>session_token = Jwt RS256 (privateKey cfg) decoded, flag = False,
                       expiresAt = None, userId = Some (user_id u)\<rparr>
           \<and> (\<forall>t. jwt_verify t (Some (Jwt RS256 (privateKey cfg) decoded)) (publicKey cfg)
                     (Some [RS256])
                   = (if t < now + 3600 then Inr decoded else Inl ''jwt expired''))"
proof -
  let ?tok = "Jwt RS256 (privateKey cfg) decoded"
  let ?s = "\<lparr>session_token = ?tok, flag = False, expiresAt = None,
            userId = Some (user_id u)\<rparr>"
  have l: "login cfg now d b
             = (respond 200 (JObj [(''token'', JToken ?tok)]),
                d\<lparr>sessions := sessions d @ [?s]\<rparr>)"
    using login_ok[OF assms(1-6) _ assms(10)] assms(9) by simp
  have f: "session_findOne (d\<lparr>sessions := sessions d @ [?s]\<rparr>) ?tok = Some ?s"
    using assms(10) by (simp add: session_findOne_def find_append_None)
  have v: "jwt_verify t (Some ?tok) (publicKey cfg) (Some [RS256])
             = (if t < now + 3600 then Inr decoded else Inl ''jwt expired'')" for t
    using assms(7,8,9) by (simp add: jwt_verify_def signature_ok_def HS_ALGS_def)
  from l f v show ?thesis by blast
qed

text \<open>Alice's first login at second 100; her token is good at 3699 and expired at 3700.\<close>

theorem login_issues_session_token_witness:
  "\<exists>d'. login cfg0 100 db0 alice_login
          = (respond 200 (JObj [(''token'', JToken alice_token)]), d')
     \<and> session_findOne d' alice_token
          = Some \<lparr>session_token = alice_token, flag = False, expiresAt = None,
                  userId = Some 1\<rparr>
     \<and> jwt_verify 3699 (Some alice_token) (publicKey cfg0) (Some [RS256])
          = Inr \<lparr>claim_id = Some 1, claim_username = Some ''alice'', claim_email = None,
                 claim_verified = Some False, iat = 100, exp = Some 3700\<rparr>
     \<and> jwt_verify 3700 (Some alice_token) (publicKey cfg0) (Some [RS256])
          = Inl ''jwt expired''"
proof -
  let ?decoded = "\<lparr>claim_id = Some (user_id alice), claim_username = Some (username alice),
                  claim_email = None, claim_verified = Some (emailVerified alice),
                  iat = 100, exp = Some (100 + 3600)\<rparr>"
  have t: "Jwt RS256 (privateKey cfg0) ?decoded = alice_token"
    by (simp add: alice_token_def cfg0_def alice_def)
  have h1: "body_username alice_login = Some ''alice''" "''alice'' \<noteq> []"
     "body_password alice_login = Some ''secret1''" "''secret1'' \<noteq> []"
    by (simp_all add: alice_login_def)
  have h2: "user_findOne_username db0 ''alice'' = Some alice" by code_simp
  have h3: "bcrypt_compare ''secret1'' (password alice)" by code_simp
  have h4: "privateKey cfg0 = RsaPrivate 1" "publicKey cfg0 = RsaPublic 1"
    by (simp_all add: cfg0_def)
  have h5: "session_findOne db0 (Jwt RS256 (privateKey cfg0) ?decoded) = None"
    by (simp add: session_findOne_def db0_def)
  from login_issues_session_token[OF h1 h2 h3 h4 refl h5]
  show ?thesis unfolding t by (auto simp: alice_def)
qed

text \<open>
  C4. A login with the username and the correct password of a stored user is to be
  answered 200 with a session token (RS256, the user's id, username and email-verified
  flag, one hour). The code misses this when the same user logs in twice within one
  clock second. Alice's first login at second 100 is answered 200. At her second
  login in second 100 the user is found and the password matches, but \<^verbatim>\<open>jwt.sign\<close>
  produces the token of the first login again, the unique token column refuses the
  second record, and the catch block answers 500, storing nothing. One second later
  the same request is answered 200.
\<close>

theorem login_same_second_refused:
  "body_username alice_login = Some ''alice''
   \<and> body_password alice_login = Some ''secret1''
   \<and> user_findOne_username db_logged_in ''alice'' = Some alice
   \<and> bcrypt_compare ''secret1'' (password alice)
   \<and> statusCode (fst (login cfg0 100 db0 alice_login)) = 200
   \<and> snd (login cfg0 100 db0 alice_login) = db_logged_in
   \<and> statusCode (fst (login cfg0 100 db_logged_in alice_login)) = 500
   \<and> snd (login cfg0 100 db_logged_in alice_login) = db_logged_in
   \<and> statusCode (fst (login cfg0 101 db_logged_in alice_login)) = 200"
  by code_simp

text \<open>
  C7, as amended. The login controller identifies the user by username only. A
  request without a username (absent or empty), whatever its email and password, is
  answered 400 by the route and stores nothing; when the validators let it through,
  as they do for a well-formed email with a password of six characters, the answer
  is the controller's 'Username and password are required'.
\<close>

theorem login_requires_username:
  assumes "falsy_string (body_username b)"
  shows "login cfg now d b = (respond 400 (message ''Username and password are required''), d)
   \<and> (\<exists>r. post_login isEmail cfg now d b = (r, d) \<and> statusCode r = 400)
   \<and> (validateLogin isEmail b = [] \<longrightarrow> post_login isEmail cfg now d b
          = (respond 400 (message ''Username and password are required''), d))"
  using assms
  by (auto simp: login_def post_login_def validationErrorHandler_def respond_def
        split: middleware.splits)

theorem login_requires_username_witness:
  "falsy_string (body_username alice_email_login)
   \<and> validateLogin has_at alice_email_login = []
   \<and> login cfg0 100 db0 alice_email_login
       = (respond 400 (message ''Username and password are required''), db0)
   \<and> post_login has_at cfg0 100 db0 alice_email_login
       = (respond 400 (message ''Username and password are required''), db0)"
proof -
  have f: "falsy_string (body_username alice_email_login)"
    by (simp add: falsy_string_def alice_email_login_def)
  have v: "validateLogin has_at alice_email_login = []" by code_simp
  from login_requires_username[OF f, of cfg0 100 db0 has_at] f v show ?thesis by blast
qed

text \<open>
  Alice is stored with the email alice@x.com and the password secret1. A login with
  that email, that password and no username passes the validators and is answered
  400; the same password with her username is answered 200.
\<close>

theorem login_by_email_refused:
  "user_findOne_email db0 ''alice@x.com'' = Some alice
   \<and> body_email alice_email_login = Some ''alice@x.com''
   \<and> body_username alice_email_login = None
   \<and> body_password alice_email_login = Some ''secret1''
   \<and> bcrypt_compare ''secret1'' (password alice)
   \<and> validateLogin has_at alice_email_login = []
   \<and> post_login has_at cfg0 100 db0 alice_email_login
       = (respond 400 (message ''Username and password are required''), db0)
   \<and> statusCode (fst (post_login has_at cfg0 100 db0 alice_login)) = 200"
  by code_simp

section \<open>The access middleware\<close>

text \<open>
  C5. A bearer token that verifies against the public key (signature and expiry in
  order) but whose payload has no id or no username (more generally an id or username
  that JavaScript treats as false) is answered 401 'Token is missing required user
  information'. The answer is the same for every database: the session table and the
  user table are not consulted.
\<close>

theorem incomplete_claims_rejected:
  assumes "bearer authorization = Some tok"
    and "jwt_verify now (Some tok) (publicKey cfg) (Some [RS256]) = Inr decoded"
    and "falsy_id (claim_id decoded) \<or> falsy_string (claim_username decoded)"
  shows "\<forall>d. verifyToken cfg now d authorization
           = Respond (respond 401 (message ''Token is missing required user information''))"
  using assms
  by (auto simp: verifyToken_def jwt_verify_def falsy_id_def falsy_string_def
        split: option.splits)

theorem incomplete_claims_rejected_witness:
  "bearer (Bearer nameless_token) = Some nameless_token
   \<and> jwt_verify 200 (Some nameless_token) (publicKey cfg0) (Some [RS256])
        = Inr \<lparr>claim_id = Some 1, claim_username = None, claim_email = None,
               claim_verified = Some False, iat = 100, exp = Some 3700\<rparr>
   \<and> verifyToken cfg0 200 db0 (Bearer nameless_token)
        = Respond (respond 401 (message ''Token is missing required user information''))
   \<and> verifyToken cfg0 200 db_logged_in (Bearer nameless_token)
        = Respond (respond 401 (message ''Token is missing required user information''))"
proof -
  have b: "bearer (Bearer nameless_token) = Some nameless_token"
    by (simp add: bearer_def Bearer_def)
  have j: "jwt_verify 200 (Some nameless_token) (publicKey cfg0) (Some [RS256])
        = Inr \<lparr>claim_id = Some 1, claim_username = None, claim_email = None,
               claim_verified = Some False, iat = 100, exp = Some 3700\<rparr>"
    by code_simp
  have f: "falsy_id (claim_id \<lparr>claim_id = Some 1, claim_username = None, claim_email = None,
               claim_verified = Some False, iat = 100, exp = Some 3700\<rparr>)
           \<or> falsy_string (claim_username \<lparr>claim_id = Some 1, claim_username = None,
               claim_email = None, claim_verified = Some False, iat = 100, exp = Some 3700\<rparr>)"
    by (simp add: falsy_string_def)
  from incomplete_claims_rejected[OF b j f] b j show ?thesis by simp
qed

text \<open>
  C6. \<^verbatim>\<open>roleAuthorization(allowedRoles)\<close>: without \<^verbatim>\<open>req.user\<close>, or without
  \<^verbatim>\<open>req.user.role\<close>, the answer is 403 'Access denied'; with roles that share no
  element with the allowed ones it is 403 'Forbidden: Insufficient permissions', a
  different message; with a shared role the request is handed on unchanged. Whenever
  the middleware answers itself, the status is 403, so never 401.
\<close>

theorem roleAuthorization_cases:
  "(ru = None \<or> (\<exists>u. ru = Some u \<and> req_role u = None)
      \<longrightarrow> roleAuthorization allowedRoles ru
            = Respond (respond 403 (message ''Access denied'')))
   \<and> (\<forall>u rs. ru = Some u \<and> req_role u = Some rs \<and> set rs \<inter> set allowedRoles = {}
      \<longrightarrow> roleAuthorization allowedRoles ru
            = Respond (respond 403 (message ''Forbidden: Insufficient permissions'')))
   \<and> (\<forall>u rs. ru = Some u \<and> req_role u = Some rs \<and> set rs \<inter> set allowedRoles \<noteq> {}
      \<longrightarrow> roleAuthorization allowedRoles ru = Next u)
   \<and> (\<forall>r. roleAuthorization allowedRoles ru = Respond r \<longrightarrow> statusCode r = 403)
   \<and> message ''Access denied'' \<noteq> message ''Forbidden: Insufficient permissions''"
  by (auto simp: roleAuthorization_def respond_def message_def list_ex_iff Let_def
        split: option.splits)

theorem roleAuthorization_cases_witness:
  "roleAuthorization [''admin''] None = Respond (respond 403 (message ''Access denied''))
   \<and> roleAuthorization [''admin''] (Some roleless_user)
       = Respond (respond 403 (message ''Access denied''))
   \<and> roleAuthorization [''admin''] (Some plain_user)
       = Respond (respond 403 (message ''Forbidden: Insufficient permissions''))
   \<and> roleAuthorization [''admin''] (Some admin_user) = Next admin_user"
proof -
  have 1: "req_role roleless_user = None" by (simp add: roleless_user_def)
  have 2: "req_role plain_user = Some [''user''] \<and> set [''user''] \<inter> set [''admin''] = {}"
    by (simp add: plain_user_def)
  have 3: "req_role admin_user = Some [''user'', ''admin'']
             \<and> set [''user'', ''admin''] \<inter> set [''admin''] \<noteq> {}"
    by (simp add: admin_user_def)
  from roleAuthorization_cases[of None "[''admin'']"]
  have a: "roleAuthorization [''admin''] None
             = Respond (respond 403 (message ''Access denied''))"
    by blast
  from roleAuthorization_cases[of "Some roleless_user" "[''admin'']"] 1
  have b: "roleAuthorization [''admin''] (Some roleless_user)
       = Respond (respond 403 (message ''Access denied''))" by blast
  from roleAuthorization_cases[of "Some plain_user" "[''admin'']"] 2
  have c: "roleAuthorization [''admin''] (Some plain_user)
       = Respond (respond 403 (message ''Forbidden: Insufficient permissions''))" by blast
  from roleAuthorization_cases[of "Some admin_user" "[''admin'']"] 3
  have d: "roleAuthorization [''admin''] (Some admin_user) = Next admin_user" by blast
  from a b c d show ?thesis by blast
qed

section \<open>Roles of a user\<close>

lemma Roles_none:
  assumes "\<forall>ur \<in> set (user_roles d). ur_userId ur \<noteq> user_id u"
  shows "Roles d u = []"
  using assms by (auto simp: Roles_def list_ex_iff filter_empty_conv)

lemma user_findByPk_id: "user_findByPk d i = Some u \<Longrightarrow> user_id u = i"
  by (auto simp: user_findByPk_def dest!: find_Some_iff[THEN iffD1])

text \<open>
  C8, as amended. \<^verbatim>\<open>getUserRoles\<close>, for a path id that is an integer within the range
  of the key: for a stored user the answer is 200 with the names of the roles joined
  to the user; when the junction table has no row for the user, that is the empty
  array, a success; for an id that no user has, the answer is 401 with the message
  'User not found'. For a path id that is no integer, or an integer outside the range
  of the key, the answer is 500.
\<close>

theorem getUserRoles_cases:
  "(\<forall>n u. p = IntText n \<and> in_INTEGER n \<and> user_findByPk d n = Some u
        \<longrightarrow> getUserRoles d p
              = respond 200 (JArr (map (\<lambda>r. JStr (roleName r)) (Roles d u))))
   \<and> (\<forall>n. p = IntText n \<and> in_INTEGER n \<and> (\<exists>u. user_findByPk d n = Some u)
            \<and> (\<forall>ur \<in> set (user_roles d). ur_userId ur \<noteq> n)
        \<longrightarrow> getUserRoles d p = respond 200 (JArr []))
   \<and> (\<forall>n. p = IntText n \<and> in_INTEGER n \<and> user_findByPk d n = None
        \<longrightarrow> getUserRoles d p = respond 401 (message ''User not found''))
   \<and> ((\<exists>s. p = NotInt s) \<or> (\<exists>n. p = IntText n \<and> \<not> in_INTEGER n)
        \<longrightarrow> (\<exists>err. getUserRoles d p
                      = respond 500 (message_error ''Error fetching user roles'' err)))"
proof (intro conjI allI impI)
  fix n u assume "p = IntText n \<and> in_INTEGER n \<and> user_findByPk d n = Some u"
  then show "getUserRoles d p
               = respond 200 (JArr (map (\<lambda>r. JStr (roleName r)) (Roles d u)))"
    by (simp add: getUserRoles_def user_findByPk_text_def)
next
  fix n
  assume a: "p = IntText n \<and> in_INTEGER n \<and> (\<exists>u. user_findByPk d n = Some u)
               \<and> (\<forall>ur \<in> set (user_roles d). ur_userId ur \<noteq> n)"
  then obtain u where u: "user_findByPk d n = Some u" by blast
  with a have "Roles d u = []"
    using Roles_none[of d u] user_findByPk_id[OF u] by simp
  with u a show "getUserRoles d p = respond 200 (JArr [])"
    by (simp add: getUserRoles_def user_findByPk_text_def)
next
  fix n assume "p = IntText n \<and> in_INTEGER n \<and> user_findByPk d n = None"
  then show "getUserRoles d p = respond 401 (message ''User not found'')"
    by (simp add: getUserRoles_def user_findByPk_text_def)
next
  assume "(\<exists>s. p = NotInt s) \<or> (\<exists>n. p = IntText n \<and> \<not> in_INTEGER n)"
  then show "\<exists>err. getUserRoles d p
                     = respond 500 (message_error ''Error fetching user roles'' err)"
    by (auto simp: getUserRoles_def user_findByPk_text_def)
qed

text \<open>
  Bob (id 2) is stored and has no row in the junction table; Alice (id 1) has the
  role 'user'; nobody has the id 3; 2147483648 is past the range of the key and
  'abc' is no integer.
\<close>

theorem getUserRoles_cases_witness:
  "user_findByPk db0 2 = Some bob
   \<and> filter (\<lambda>ur. ur_userId ur = 2) (user_roles db0) = []
   \<and> getUserRoles db0 (IntText 2) = respond 200 (JArr [])
   \<and> getUserRoles db0 (IntText 1) = respond 200 (JArr [JStr ''user''])
   \<and> user_findByPk db0 3 = None
   \<and> getUserRoles db0 (IntText 3) = respond 401 (message ''User not found'')
   \<and> statusCode (getUserRoles db0 (IntText 2147483648)) = 500
   \<and> statusCode (getUserRoles db0 (NotInt ''abc'')) = 500"
proof -
  have r: "in_INTEGER 1" "in_INTEGER 2" "in_INTEGER 3" "\<not> in_INTEGER 2147483648"
    by (simp_all add: in_INTEGER_def)
  have 1: "user_findByPk db0 2 = Some bob" by code_simp
  have 2: "\<forall>ur \<in> set (user_roles db0). ur_userId ur \<noteq> 2" by (simp add: db0_def)
  have 3: "user_findByPk db0 3 = None" by code_simp
  have 4: "user_findByPk db0 1 = Some alice" by code_simp
  have 5: "map (\<lambda>r. JStr (roleName r)) (Roles db0 alice) = [JStr ''user'']" by code_simp
  have 6: "filter (\<lambda>ur. ur_userId ur = 2) (user_roles db0) = []" by code_simp
  from getUserRoles_cases[of "IntText 2" db0] 1 2 r
  have a: "getUserRoles db0 (IntText 2) = respond 200 (JArr [])"
    by blast
  from getUserRoles_cases[of "IntText 3" db0] 3 r
  have b: "getUserRoles db0 (IntText 3) = respond 401 (message ''User not found'')"
    by blast
  from getUserRoles_cases[of "IntText 1" db0] 4 5 r
  have c: "getUserRoles db0 (IntText 1) = respond 200 (JArr [JStr ''user''])"
    by simp
  from getUserRoles_cases[of "IntText 2147483648" db0] r
  have d: "statusCode (getUserRoles db0 (IntText 2147483648)) = 500"
    by (auto simp: respond_def)
  from getUserRoles_cases[of "NotInt ''abc''" db0]
  have e: "statusCode (getUserRoles db0 (NotInt ''abc'')) = 500"
    by (auto simp: respond_def)
  from 1 6 3 a b c d e show ?thesis by blast
qed

text \<open>
  No user has the id 3, an id within the range of the key. The answer has the status
  401, which the taxonomy counts as an authentication error, not as not-found (404).
\<close>

theorem getUserRoles_absent_is_401:
  "in_INTEGER 3
   \<and> user_findByPk db0 3 = None
   \<and> statusCode (getUserRoles db0 (IntText 3)) = 401
   \<and> spec_error_kind (statusCode (getUserRoles db0 (IntText 3))) = Some AuthenticationError
   \<and> spec_error_kind (statusCode (getUserRoles db0 (IntText 3))) \<noteq> Some NotFoundError"
  by code_simp

section \<open>Following a verification link twice\<close>

lemma find_saved:
  assumes "find P xs = Some u" "P saved" "user_id saved = user_id u"
  shows "find P (map (\<lambda>v. if user_id v = user_id saved then saved else v) xs) = Some saved"
  using assms by (induction xs) (auto split: if_splits)

lemma verification_again:
  assumes "jwt_verify now (Some tok) (Secret (secret cfg)) None = Inr decoded"
    and "user_findOne_id_email d (claim_id decoded) (claim_email decoded) = Inr (Some u)"
    and "emailVerified u"
  shows "verification cfg now d tok
           = (respond 200 (message ''User verified successfully''), d)"
  using assms by (simp add: verification_def user_save_def)

lemma verification_sets_flag:
  assumes "verification cfg now d tok = (r, d1)" "statusCode r = 200"
  shows "\<exists>decoded u. jwt_verify now (Some tok) (Secret (secret cfg)) None = Inr decoded
           \<and> user_findOne_id_email d1 (claim_id decoded) (claim_email decoded) = Inr (Some u)
           \<and> emailVerified u"
proof -
  from assms obtain decoded u saved where
    j: "jwt_verify now (Some tok) (Secret (secret cfg)) None = Inr decoded"
    and f: "user_findOne_id_email d (claim_id decoded) (claim_email decoded) = Inr (Some u)"
    and s: "user_save now d u (u\<lparr>emailVerified := True\<rparr>) = Inr (d1, saved)"
    by (auto simp: verification_def respond_def split: sum.splits option.splits)
  from f obtain i e where ie: "claim_id decoded = Some i" "claim_email decoded = Some e"
    and fu: "find (\<lambda>u. user_id u = i \<and> email u = e) (users d) = Some u"
    by (auto simp: user_findOne_id_email_def split: option.splits)
  from fu have pu: "user_id u = i" "email u = e"
    by (auto dest!: find_Some_iff[THEN iffD1])
  show ?thesis
  proof (cases "u\<lparr>emailVerified := True\<rparr> = u")
    case True
    with s have "d1 = d" by (simp add: user_save_def)
    moreover from arg_cong[OF True, of emailVerified] have "emailVerified u" by simp
    ultimately show ?thesis using j f by blast
  next
    case False
    let ?saved = "u\<lparr>emailVerified := True, updatedAt := now\<rparr>"
    from s False
    have d1: "d1 = d\<lparr>users := map (\<lambda>v. if user_id v = user_id ?saved then ?saved else v)
                                   (users d)\<rparr>"
      by (auto simp: user_save_def Let_def split: if_splits)
    have "find (\<lambda>u. user_id u = i \<and> email u = e) (users d1) = Some ?saved"
      unfolding d1 using find_saved[OF fu, of ?saved] pu by simp
    then have "user_findOne_id_email d1 (claim_id decoded) (claim_email decoded)
                 = Inr (Some ?saved)"
      by (simp add: user_findOne_id_email_def ie)
    then show ?thesis using j by force
  qed
qed

text \<open>
  C9. Consuming a verification token is idempotent and the token is not single-use.
  First conjunct: when the token verifies under the secret and the user it names (by
  id and email) is stored with the email-verified flag already set, \<^verbatim>\<open>verification\<close>
  answers 200 and leaves the database, hence the flag, as it was. Second conjunct:
  after any consumption that was answered 200, a further consumption of the same
  token, at any time at which it still verifies, is answered 200 on the resulting
  database, leaves it as it is, and the user's flag is set in it.
\<close>

theorem verification_idempotent:
  "(jwt_verify now (Some tok) (Secret (secret cfg)) None = Inr decoded
      \<and> user_findOne_id_email d (claim_id decoded) (claim_email decoded) = Inr (Some u)
      \<and> emailVerified u
    \<longrightarrow> verification cfg now d tok
          = (respond 200 (message ''User verified successfully''), d))
   \<and> (verification cfg now1 d tok = (r1, d1) \<and> statusCode r1 = 200
      \<and> jwt_verify now2 (Some tok) (Secret (secret cfg)) None = Inr decoded2
    \<longrightarrow> verification cfg now2 d1 tok
          = (respond 200 (message ''User verified successfully''), d1)
        \<and> (\<exists>u. user_findOne_id_email d1 (claim_id decoded2) (claim_email decoded2)
                  = Inr (Some u)
               \<and> emailVerified u))"
proof (intro conjI impI)
  assume "jwt_verify now (Some tok) (Secret (secret cfg)) None = Inr decoded
      \<and> user_findOne_id_email d (claim_id decoded) (claim_email decoded) = Inr (Some u)
      \<and> emailVerified u"
  then show "verification cfg now d tok
               = (respond 200 (message ''User verified successfully''), d)"
    using verification_again by blast
next
  assume a: "verification cfg now1 d tok = (r1, d1) \<and> statusCode r1 = 200
      \<and> jwt_verify now2 (Some tok) (Secret (secret cfg)) None = Inr decoded2"
  then obtain decoded u where
    1: "jwt_verify now1 (Some tok) (Secret (secret cfg)) None = Inr decoded"
    and 2: "user_findOne_id_email d1 (claim_id decoded) (claim_email decoded) = Inr (Some u)"
    and 3: "emailVerified u"
    using verification_sets_flag by blast
  from 1 a have e: "decoded2 = decoded"
    by (auto simp: jwt_verify_def Let_def split: token.splits if_splits)
  with a 2 3 show "verification cfg now2 d1 tok
                     = (respond 200 (message ''User verified successfully''), d1)"
    using verification_again by blast
  from e 2 3
  show "\<exists>u. user_findOne_id_email d1 (claim_id decoded2) (claim_email decoded2)
               = Inr (Some u)
            \<and> emailVerified u" by blast
qed

text \<open>
  Alice follows her link of second 50 at second 60 and again at second 70.
\<close>

theorem verification_idempotent_witness:
  "verification cfg0 60 db0 (verificationToken cfg0 50 alice)
     = (respond 200 (message ''User verified successfully''), db_verified)
   \<and> jwt_verify 70 (Some (verificationToken cfg0 50 alice)) (Secret (secret cfg0)) None
       = Inr \<lparr>claim_id = Some 1, claim_username = None, claim_email = Some ''alice@x.com'',
              claim_verified = None, iat = 50, exp = Some 3650\<rparr>
   \<and> verification cfg0 70 db_verified (verificationToken cfg0 50 alice)
       = (respond 200 (message ''User verified successfully''), db_verified)
   \<and> (\<exists>u. user_findOne_id_email db_verified (Some 1) (Some ''alice@x.com'') = Inr (Some u)
          \<and> emailVerified u)"
proof -
  let ?c = "\<lparr>claim_id = Some 1, claim_username = None, claim_email = Some ''alice@x.com'',
              claim_verified = None, iat = 50, exp = Some 3650\<rparr>"
  have 1: "verification cfg0 60 db0 (verificationToken cfg0 50 alice)
     = (respond 200 (message ''User verified successfully''), db_verified)" by code_simp
  have s: "statusCode (respond 200 (message ''User verified successfully'')) = 200"
    by (simp add: respond_def)
  have j: "jwt_verify 70 (Some (verificationToken cfg0 50 alice)) (Secret (secret cfg0)) None
       = Inr ?c" by code_simp
  from verification_idempotent
         [where ?now1.0 = 60 and d = db0 and tok = "verificationToken cfg0 50 alice"
            and cfg = cfg0 and ?d1.0 = db_verified and ?now2.0 = 70 and ?decoded2.0 = ?c
            and ?r1.0 = "respond 200 (message ''User verified successfully'')"] 1 s j
  have 2: "verification cfg0 70 db_verified (verificationToken cfg0 50 alice)
             = (respond 200 (message ''User verified successfully''), db_verified)
        \<and> (\<exists>u. user_findOne_id_email db_verified (claim_id ?c) (claim_email ?c)
                  = Inr (Some u)
               \<and> emailVerified u)"
    by blast
  from 1 j 2 show ?thesis by simp
qed

section \<open>The password digest in profile responses\<close>

lemma userData_no_password: "\<not> has_field ''password'' (userData u)"
  by (simp add: userData_def toJSON_def)

lemma userData_forget: "userData (forget_password u) = userData u"
  by (simp add: userData_def toJSON_def forget_password_def)

lemma getUser_no_password:
  "statusCode (getUser d ru) = 200 \<Longrightarrow> \<not> has_field ''password'' (body (getUser d ru))"
  by (auto simp: getUser_def respond_def userData_no_password split: option.splits)

lemma updateUser_no_password:
  "statusCode (fst (updateUser now d ru b)) = 200
     \<Longrightarrow> \<not> has_field ''password'' (body (fst (updateUser now d ru b)))"
  by (auto simp: updateUser_def Let_def respond_def userData_no_password
        split: option.splits sum.splits)

lemma verifyToken_status: "verifyToken cfg now d a = Respond r \<Longrightarrow> statusCode r = 401"
  by (auto simp: verifyToken_def respond_def split: option.splits sum.splits if_splits)

lemma get_user_no_password:
  "statusCode (get_user cfg now d a) = 200
     \<Longrightarrow> \<not> has_field ''password'' (body (get_user cfg now d a))"
  by (auto simp: get_user_def getUser_no_password split: middleware.splits
        dest: verifyToken_status)

lemma put_user_no_password:
  "statusCode (fst (put_user cfg now d a errors b)) = 200
     \<Longrightarrow> \<not> has_field ''password'' (body (fst (put_user cfg now d a errors b)))"
  by (auto simp: put_user_def updateUser_no_password validationErrorHandler_def respond_def
        split: middleware.splits if_splits dest: verifyToken_status)

lemma find_map_forget_P:
  assumes "\<And>u. P (forget_password u) = P u"
  shows "find P (map forget_password xs) = map_option forget_password (find P xs)"
  by (induction xs) (simp_all add: assms)

lemma same_but_passwords_rest:
  assumes "same_but_passwords d1 d2"
  shows "map forget_password (users d1) = map forget_password (users d2)"
    and "sessions d1 = sessions d2" and "roles d1 = roles d2"
    and "user_roles d1 = user_roles d2"
proof -
  from assms have e: "d1\<lparr>users := map forget_password (users d1)\<rparr>
        = d2\<lparr>users := map forget_password (users d2)\<rparr>"
    by (simp add: same_but_passwords_def)
  from arg_cong[OF e, of users]
  show "map forget_password (users d1) = map forget_password (users d2)" by simp
  from arg_cong[OF e, of sessions] show "sessions d1 = sessions d2" by simp
  from arg_cong[OF e, of roles] show "roles d1 = roles d2" by simp
  from arg_cong[OF e, of user_roles] show "user_roles d1 = user_roles d2" by simp
qed

lemma forget_eq_fields:
  assumes "forget_password u1 = forget_password u2"
  shows "user_id u1 = user_id u2" "username u1 = username u2"
    "emailVerified u1 = emailVerified u2"
proof -
  from arg_cong[OF assms, of user_id] show "user_id u1 = user_id u2"
    by (simp add: forget_password_def)
  from arg_cong[OF assms, of username] show "username u1 = username u2"
    by (simp add: forget_password_def)
  from arg_cong[OF assms, of emailVerified] show "emailVerified u1 = emailVerified u2"
    by (simp add: forget_password_def)
qed

lemma find_same_but_passwords:
  assumes "same_but_passwords d1 d2" and "\<And>u. P (forget_password u) = P u"
  shows "map_option forget_password (find P (users d1))
           = map_option forget_password (find P (users d2))"
proof -
  have "map_option forget_password (find P (users d1))
          = find P (map forget_password (users d1))"
    by (simp add: find_map_forget_P[of P, OF assms(2)])
  also have "\<dots> = find P (map forget_password (users d2))"
    by (simp only: same_but_passwords_rest(1)[OF assms(1)])
  also have "\<dots> = map_option forget_password (find P (users d2))"
    by (simp add: find_map_forget_P[of P, OF assms(2)])
  finally show ?thesis .
qed

lemma getUser_noninterference:
  assumes "same_but_passwords d1 d2"
  shows "getUser d1 ru = getUser d2 ru"
proof -
  have "map_option forget_password (user_findByPk d1 (req_id ru))
          = map_option forget_password (user_findByPk d2 (req_id ru))"
    unfolding user_findByPk_def
    by (rule find_same_but_passwords[OF assms]) (simp add: forget_password_def)
  then show ?thesis
    by (cases "user_findByPk d1 (req_id ru)"; cases "user_findByPk d2 (req_id ru)")
       (auto simp: getUser_def dest: arg_cong[where f = userData] simp: userData_forget)
qed

lemma verifyToken_noninterference:
  assumes "same_but_passwords d1 d2"
  shows "verifyToken cfg now d1 a = verifyToken cfg now d2 a"
proof -
  note r = same_but_passwords_rest[OF assms]
  have s: "session_findOne d1 t = session_findOne d2 t" for t
    by (simp add: session_findOne_def r)
  have u: "map_option forget_password
             (find (\<lambda>u. user_id u = i \<and> username u = n) (users d1))
         = map_option forget_password
             (find (\<lambda>u. user_id u = i \<and> username u = n) (users d2))"
    for i n
    by (rule find_same_but_passwords[OF assms]) (simp add: forget_password_def)
  have R: "Roles d1 u1 = Roles d2 u2" if "user_id u1 = user_id u2" for u1 u2
    using that by (simp add: Roles_def r)
  have f: "(case user_findOne_id_username d1 i n of
              Inl err \<Rightarrow> Respond (respond 401 (message_error ''Token verification failed'' err))
            | Inr None \<Rightarrow> Respond (respond 401 (message ''User not found''))
            | Inr (Some u) \<Rightarrow> Next \<lparr>req_id = user_id u, req_username = username u,
                 verified = emailVerified u, req_role = Some (map roleName (Roles d1 u))\<rparr>)
         = (case user_findOne_id_username d2 i n of
              Inl err \<Rightarrow> Respond (respond 401 (message_error ''Token verification failed'' err))
            | Inr None \<Rightarrow> Respond (respond 401 (message ''User not found''))
            | Inr (Some u) \<Rightarrow> Next \<lparr>req_id = user_id u, req_username = username u,
                 verified = emailVerified u, req_role = Some (map roleName (Roles d2 u))\<rparr>)"
    for i n
  proof (cases i; cases n)
    fix i' n' assume in': "i = Some i'" "n = Some n'"
    show ?thesis
    proof (cases "find (\<lambda>u. user_id u = i' \<and> username u = n') (users d1)";
           cases "find (\<lambda>u. user_id u = i' \<and> username u = n') (users d2)")
      fix u1 u2
      assume a: "find (\<lambda>u. user_id u = i' \<and> username u = n') (users d1) = Some u1"
         "find (\<lambda>u. user_id u = i' \<and> username u = n') (users d2) = Some u2"
      with u[of i' n'] have "forget_password u1 = forget_password u2" by simp
      from forget_eq_fields[OF this] R a in' show ?thesis
        by (simp add: user_findOne_id_username_def)
    qed (use u[of i' n'] in' in \<open>simp_all add: user_findOne_id_username_def\<close>)
  qed (simp_all add: user_findOne_id_username_def)
  show ?thesis
  proof (cases "bearer a")
    case None
    then show ?thesis by (simp add: verifyToken_def)
  next
    case (Some tok)
    note tok = this
    show ?thesis
    proof (cases "jwt_verify now (Some tok) (publicKey cfg) (Some [RS256])")
      case (Inl err)
      with tok show ?thesis by (simp add: verifyToken_def)
    next
      case (Inr decoded)
      note decoded = this
      show ?thesis
      proof (cases "session_findOne d2 tok")
        case None
        with tok decoded s[of tok] show ?thesis by (simp add: verifyToken_def)
      next
        case (Some blacklistedToken)
        with tok decoded s[of tok] f[of "claim_id decoded" "claim_username decoded"]
        show ?thesis by (simp add: verifyToken_def)
      qed
    qed
  qed
qed

lemma get_user_noninterference:
  assumes "same_but_passwords d1 d2"
  shows "get_user cfg now d1 a = get_user cfg now d2 a"
  unfolding get_user_def
  using verifyToken_noninterference[OF assms] getUser_noninterference[OF assms]
  by (simp split: middleware.splits)

text \<open>
  C10. The stored password digest is not in profile responses. Every 200 response of
  GET /user (the route behind \<^verbatim>\<open>verifyToken\<close>, and the controller \<^verbatim>\<open>getUser\<close> itself)
  and every 200 response of PUT /user (route and controller \<^verbatim>\<open>updateUser\<close>) has a body
  without a password field. And for two databases that differ at most in the password
  digests of their users, GET /user gives the same response.
\<close>

theorem profile_hides_password:
  "(statusCode (get_user cfg now d authorization) = 200
        \<longrightarrow> \<not> has_field ''password'' (body (get_user cfg now d authorization)))
   \<and> (statusCode (getUser d ru) = 200 \<longrightarrow> \<not> has_field ''password'' (body (getUser d ru)))
   \<and> (statusCode (fst (put_user cfg now d authorization errors b)) = 200
        \<longrightarrow> \<not> has_field ''password''
               (body (fst (put_user cfg now d authorization errors b))))
   \<and> (statusCode (fst (updateUser now d ru b)) = 200
        \<longrightarrow> \<not> has_field ''password'' (body (fst (updateUser now d ru b))))
   \<and> (same_but_passwords d d2
        \<longrightarrow> get_user cfg now d authorization = get_user cfg now d2 authorization
          \<and> getUser d ru = getUser d2 ru)"
proof (intro conjI impI)
  assume "statusCode (get_user cfg now d authorization) = 200"
  then show "\<not> has_field ''password'' (body (get_user cfg now d authorization))"
    by (rule get_user_no_password)
next
  assume "statusCode (getUser d ru) = 200"
  then show "\<not> has_field ''password'' (body (getUser d ru))"
    by (rule getUser_no_password)
next
  assume "statusCode (fst (put_user cfg now d authorization errors b)) = 200"
  then show "\<not> has_field ''password''
               (body (fst (put_user cfg now d authorization errors b)))"
    by (rule put_user_no_password)
next
  assume "statusCode (fst (updateUser now d ru b)) = 200"
  then show "\<not> has_field ''password'' (body (fst (updateUser now d ru b)))"
    by (rule updateUser_no_password)
next
  assume "same_but_passwords d d2"
  then show "get_user cfg now d authorization = get_user cfg now d2 authorization"
    by (rule get_user_noninterference)
next
  assume "same_but_passwords d d2"
  then show "getUser d ru = getUser d2 ru"
    by (rule getUser_noninterference)
qed

text \<open>
  Alice reads and updates her profile with the token of her login at second 100; the
  database with another digest stored for her gives the same answer to the read.
\<close>

theorem profile_hides_password_witness:
  "statusCode (get_user cfg0 200 db_logged_in (Bearer alice_token)) = 200
   \<and> \<not> has_field ''password'' (body (get_user cfg0 200 db_logged_in (Bearer alice_token)))
   \<and> has_field ''email'' (body (get_user cfg0 200 db_logged_in (Bearer alice_token)))
   \<and> has_field ''password'' (JObj (toJSON alice))
   \<and> statusCode (fst (put_user cfg0 200 db_logged_in (Bearer alice_token) [] rename_alice))
       = 200
   \<and> \<not> has_field ''password''
         (body (fst (put_user cfg0 200 db_logged_in (Bearer alice_token) [] rename_alice)))
   \<and> same_but_passwords db_logged_in db_logged_in_other_password
   \<and> db_logged_in \<noteq> db_logged_in_other_password
   \<and> get_user cfg0 200 db_logged_in (Bearer alice_token)
       = get_user cfg0 200 db_logged_in_other_password (Bearer alice_token)"
proof -
  have 1: "statusCode (get_user cfg0 200 db_logged_in (Bearer alice_token)) = 200"
    by code_simp
  have 2: "has_field ''email'' (body (get_user cfg0 200 db_logged_in (Bearer alice_token)))"
    by code_simp
  have 3: "has_field ''password'' (JObj (toJSON alice))" by code_simp
  have 4: "statusCode (fst (put_user cfg0 200 db_logged_in (Bearer alice_token) []
                              rename_alice)) = 200"
    by code_simp
  have 5: "same_but_passwords db_logged_in db_logged_in_other_password" by code_simp
  have 6: "db_logged_in \<noteq> db_logged_in_other_password" by code_simp
  note p = profile_hides_password
             [of cfg0 200 db_logged_in "Bearer alice_token" plain_user "[]" rename_alice
                 db_logged_in_other_password]
  from p 1
  have a: "\<not> has_field ''password''
             (body (get_user cfg0 200 db_logged_in (Bearer alice_token)))"
    by blast
  from p 4
  have b: "\<not> has_field ''password''
         (body (fst (put_user cfg0 200 db_logged_in (Bearer alice_token) [] rename_alice)))"
    by blast
  from p 5
  have c: "get_user cfg0 200 db_logged_in (Bearer alice_token)
       = get_user cfg0 200 db_logged_in_other_password (Bearer alice_token)"
    by blast
  from 1 2 3 4 5 6 a b c show ?thesis by blast
qed

end
